theory Spec2Isabelle
  imports Main "HOL-Library.Sublist" "HOL-Library.AList"
begin

section \<open>Python values and exceptions\<close>

text \<open>
  The values that flow through the message and content fields are dynamically typed.
  \<open>pyval\<close> covers the JSON-like fragment the code inspects: \<open>None\<close>, booleans,
  integers, \<open>str\<close>, \<open>list\<close> and \<open>dict\<close> with \<open>str\<close> keys (an association list;
  the first binding of a key is the one a lookup sees).
\<close>

datatype pyval =
    PNone
  | PBool bool
  | PInt int
  | PStr string
  | PList "pyval list"
  | PDict "(string \<times> pyval) list"

text \<open>
  An exception is its class together with the text \<open>str(e)\<close>. The classes are the ones
  the handlers of the code tell apart (\<open>asyncio.TimeoutError\<close>,
  \<open>requests.exceptions.RequestException\<close> and its subclasses) and the ones the
  interpreter raises on the operations the code performs.
\<close>

datatype exc_class =
    TimeoutError
  | KeyError
  | TypeError
  | AttributeError
  | IndexError
  | UnboundLocalError
  | RequestException
  | HTTPError
  | JSONDecodeError
  | CalledProcessError
  | OSError
  | PlainException
  | OtherException

datatype py_exception = PyExc (exc_class_of: exc_class) (exc_str: string)

text \<open>\<open>except requests.exceptions.RequestException\<close>: the class and its subclasses.\<close>

fun is_request_exception :: "exc_class \<Rightarrow> bool" where
  "is_request_exception RequestException = True"
| "is_request_exception HTTPError = True"
| "is_request_exception JSONDecodeError = True"
| "is_request_exception _ = False"

text \<open>Decimal text of a number, as \<open>str\<close> gives it for an \<open>int\<close>.\<close>

fun str_nat :: "nat \<Rightarrow> string" where
  "str_nat n =
     (if n < 10 then [char_of (48 + n)]
      else str_nat (n div 10) @ [char_of (48 + n mod 10)])"

declare str_nat.simps [simp del]

definition str_int :: "int \<Rightarrow> string" where
  "str_int i = (if i < 0 then CHR ''-'' # str_nat (nat (- i)) else str_nat (nat i))"

definition quoted :: "string \<Rightarrow> string" where
  "quoted s = CHR 0x27 # s @ [CHR 0x27]"

fun type_name :: "pyval \<Rightarrow> string" where
  "type_name PNone = ''NoneType''"
| "type_name (PBool _) = ''bool''"
| "type_name (PInt _) = ''int''"
| "type_name (PStr _) = ''str''"
| "type_name (PList _) = ''list''"
| "type_name (PDict _) = ''dict''"

text \<open>\<open>v[key]\<close> with a \<open>str\<close> key: defined on a \<open>dict\<close> that has the key only.\<close>

fun subscript :: "pyval \<Rightarrow> string \<Rightarrow> py_exception + pyval" where
  "subscript (PDict d) k =
     (case map_of d k of
        None \<Rightarrow> Inl (PyExc KeyError (quoted k))
      | Some v \<Rightarrow> Inr v)"
| "subscript (PStr _) k = Inl (PyExc TypeError ''string indices must be integers'')"
| "subscript (PList _) k = Inl (PyExc TypeError ''list indices must be integers or slices, not str'')"
| "subscript v k = Inl (PyExc TypeError (quoted (type_name v) @ '' object is not subscriptable''))"

section \<open>Conversation history (models/agent.py)\<close>

text \<open>
  A message of the checkpointed state: its \<open>type\<close> attribute and its \<open>content\<close>.
  \<open>checkpointer.get\<close> gives \<open>None\<close> or the checkpoint of the thread, a dict.
  \<open>messages\<close> is what the dict holds under the top-level key \<open>"messages"\<close>, the key
  that \<open>state.get("messages", [])\<close> reads, and \<open>None\<close> when the dict has no such key.
  \<open>channel_messages\<close> is the message list of the thread where the checkpointer keeps
  it, under \<open>"channel_values"\<close>. The only checkpointer of the program is the
  \<open>MemorySaver\<close> made in app.py; a checkpoint it returns has the keys of a
  \<open>Checkpoint\<close>, none of which is \<open>"messages"\<close>, so for it \<open>messages = None\<close>.
\<close>

record lc_message =
  msg_type :: string
  msg_content :: pyval

record checkpoint_state =
  messages :: "lc_message list option"
  channel_messages :: "lc_message list"

text \<open>The checkpoint store: the saved state of each thread id that has one.\<close>

type_synonym checkpointer = "(string \<times> checkpoint_state) list"

record history_entry =
  role :: string
  content :: pyval

text \<open>
  \<open>"".join(item["text"] for item in content if item["type"] == "text")\<close>: the
  generator is consumed item by item, the filter first, then the element; the join
  rejects an element that is not a \<open>str\<close>.
\<close>

fun text_items :: "pyval list \<Rightarrow> py_exception + pyval list" where
  "text_items [] = Inr []"
| "text_items (item # rest) =
     (case subscript item ''type'' of
        Inl e \<Rightarrow> Inl e
      | Inr t \<Rightarrow>
          if t = PStr ''text'' then
            (case subscript item ''text'' of
               Inl e \<Rightarrow> Inl e
             | Inr v \<Rightarrow> (case text_items rest of Inl e \<Rightarrow> Inl e | Inr vs \<Rightarrow> Inr (v # vs)))
          else text_items rest)"

fun str_join :: "nat \<Rightarrow> pyval list \<Rightarrow> py_exception + string" where
  "str_join i [] = Inr []"
| "str_join i (PStr s # rest) =
     (case str_join (Suc i) rest of Inl e \<Rightarrow> Inl e | Inr r \<Rightarrow> Inr (s @ r))"
| "str_join i (v # rest) =
     Inl (PyExc TypeError (''sequence item '' @ str_nat i @ '': expected str instance, '' @ type_name v @ '' found''))"

definition flatten_content :: "pyval \<Rightarrow> py_exception + pyval" where
  "flatten_content c =
     (case c of
        PList items \<Rightarrow>
          (case text_items items of
             Inl e \<Rightarrow> Inl e
           | Inr vs \<Rightarrow> (case str_join 0 vs of Inl e \<Rightarrow> Inl e | Inr s \<Rightarrow> Inr (PStr s)))
      | _ \<Rightarrow> Inr c)"

definition history_role :: "lc_message \<Rightarrow> string" where
  "history_role msg = (if msg_type msg = ''human'' then ''user'' else ''assistant'')"

fun history_loop :: "history_entry list \<Rightarrow> lc_message list \<Rightarrow> py_exception + history_entry list" where
  "history_loop acc [] = Inr acc"
| "history_loop acc (msg # rest) =
     (case flatten_content (msg_content msg) of
        Inl e \<Rightarrow> Inl e
      | Inr c \<Rightarrow> history_loop (acc @ [\<lparr>role = history_role msg, content = c\<rparr>]) rest)"

text \<open>The whole body runs under \<open>try\<close>; any exception gives the empty list.\<close>

definition get_conversation_history :: "checkpointer \<Rightarrow> string \<Rightarrow> history_entry list" where
  "get_conversation_history cp thread_id =
     (case map_of cp thread_id of
        None \<Rightarrow> []
      | Some state \<Rightarrow>
          (case history_loop [] (case messages state of None \<Rightarrow> [] | Some ms \<Rightarrow> ms) of
             Inl e \<Rightarrow> []
           | Inr hist \<Rightarrow> hist))"

text \<open>
  The reading of the history contract, written from its words: the role follows the
  message type, a list content becomes the concatenation of the texts of its
  text-typed items, any other content is kept.
\<close>

fun item_text :: "pyval \<Rightarrow> string" where
  "item_text (PDict d) =
     (if map_of d ''type'' = Some (PStr ''text'') then
        (case map_of d ''text'' of Some (PStr s) \<Rightarrow> s | _ \<Rightarrow> [])
      else [])"
| "item_text _ = []"

definition flat_text :: "pyval \<Rightarrow> pyval" where
  "flat_text c = (case c of PList items \<Rightarrow> PStr (concat (map item_text items)) | _ \<Rightarrow> c)"

definition history_view :: "lc_message \<Rightarrow> history_entry" where
  "history_view msg = \<lparr>role = history_role msg, content = flat_text (msg_content msg)\<rparr>"

text \<open>
  An item the flattening can read: a \<open>dict\<close> with a \<open>"type"\<close> key, and with a \<open>str\<close>
  under \<open>"text"\<close> when that type is \<open>"text"\<close>.
\<close>

fun item_ok :: "pyval \<Rightarrow> bool" where
  "item_ok (PDict d) =
     (case map_of d ''type'' of
        None \<Rightarrow> False
      | Some t \<Rightarrow>
          if t = PStr ''text'' then
            (case map_of d ''text'' of Some (PStr s) \<Rightarrow> True | _ \<Rightarrow> False)
          else True)"
| "item_ok _ = False"

definition content_ok :: "pyval \<Rightarrow> bool" where
  "content_ok c = (case c of PList items \<Rightarrow> list_all item_ok items | _ \<Rightarrow> True)"

definition state_messages :: "checkpoint_state \<Rightarrow> lc_message list" where
  "state_messages state = (case messages state of None \<Rightarrow> [] | Some ms \<Rightarrow> ms)"

section \<open>The outside world\<close>

text \<open>
  What the program reaches through libraries is a parameter of the model: the HTTP
  responses of the registry, \<open>pip\<close>, the MCP client and the model constructors.
  A manifest is the decoded JSON object with the keys the code reads, \<open>None\<close> where the
  key is absent (\<open>entry_file\<close> is the key \<open>file\<close>, \<open>remote_url\<close> the key \<open>url\<close>).
  A response carries its status, its reason phrase, what \<open>response.json()\<close> gives
  (\<open>Inl\<close> the text of the decoding error) and its raw content. The MCP client gives
  the names of the tools it exposes, or the exception of entering it. The file system
  answers for a path whether \<open>os.makedirs\<close> and \<open>open(path, "wb")\<close> with the write
  raise, and, from the paths made since the staging directory was cleared, whether
  \<open>os.path.exists\<close> holds.
\<close>

record manifest =
  version :: "string option"
  transport :: "string option"
  entry_file :: "string option"
  dependencies :: "string list option"
  remote_url :: "string option"

record response =
  status_code :: nat
  reason :: string
  json_body :: "string + manifest"
  raw_content :: string

datatype llm =
    ChatAnthropic string nat
  | ChatOpenAI string nat

datatype connection =
    Stdio string "string list" "(string \<times> string) list"
  | Sse "string option"

record world =
  requests_get :: "string \<Rightarrow> string + response"
  sha256_hexdigest :: "string \<Rightarrow> string"
  pip_install :: "string list \<Rightarrow> py_exception option"
  os_makedirs :: "string \<Rightarrow> py_exception option"
  open_wb :: "string \<Rightarrow> py_exception option"
  os_path_exists :: "string list \<Rightarrow> string \<Rightarrow> bool"
  mcp_connect :: "(string \<times> connection) list \<Rightarrow> py_exception + string list"
  chat_anthropic :: "string \<Rightarrow> py_exception option"
  chat_openai :: "string \<Rightarrow> py_exception option"
  create_react_agent :: "llm \<Rightarrow> string list \<Rightarrow> string \<Rightarrow> py_exception option"

section \<open>Registry client (app.py)\<close>

definition TOOL_MARKET_URL :: string where
  "TOOL_MARKET_URL = ''https://raw.githubusercontent.com/meghanshram/ToolMarket/main''"

text \<open>\<open>response.raise_for_status()\<close> of the requests library: 4xx and 5xx raise.\<close>

definition raise_for_status :: "response \<Rightarrow> string \<Rightarrow> py_exception option" where
  "raise_for_status r url =
     (if 400 \<le> status_code r \<and> status_code r < 500 then
        Some (PyExc HTTPError
          (str_nat (status_code r) @ '' Client Error: '' @ reason r @ '' for url: '' @ url))
      else if 500 \<le> status_code r \<and> status_code r < 600 then
        Some (PyExc HTTPError
          (str_nat (status_code r) @ '' Server Error: '' @ reason r @ '' for url: '' @ url))
      else None)"

text \<open>
  The body of the \<open>try\<close> in \<open>fetch_tool_manifest\<close>: the request, the debug print of
  \<open>response.json()\<close> (which decodes the body before the status is looked at), the
  status check, the return. A body that is not JSON raises the \<open>JSONDecodeError\<close> of
  the requests library, a \<open>RequestException\<close> as are the errors of the request itself
  and of \<open>raise_for_status\<close>.
\<close>

definition fetch_tool_manifest_try :: "world \<Rightarrow> string \<Rightarrow> string \<Rightarrow> py_exception + manifest" where
  "fetch_tool_manifest_try w tool_name url =
     (case requests_get w url of
        Inl msg \<Rightarrow> Inl (PyExc RequestException msg)
      | Inr r \<Rightarrow>
          (case json_body r of
             Inl msg \<Rightarrow> Inl (PyExc JSONDecodeError msg)
           | Inr m \<Rightarrow>
               (case raise_for_status r url of
                  Some e \<Rightarrow> Inl e
                | None \<Rightarrow>
                    if status_code r = 200 then Inr m
                    else Inl (PyExc PlainException
                      (''Unexpected status code '' @ str_nat (status_code r)
                        @ '' when fetching manifest for '' @ tool_name)))))"

definition fetch_tool_manifest :: "world \<Rightarrow> string \<Rightarrow> string \<Rightarrow> py_exception + manifest" where
  "fetch_tool_manifest w tool_name github_url =
     (let url = github_url @ ''/tools/'' @ tool_name @ ''/manifest.json'' in
      case fetch_tool_manifest_try w tool_name url of
        Inl e \<Rightarrow>
          if is_request_exception (exc_class_of e) then
            Inl (PyExc PlainException
              (''Failed to fetch manifest for '' @ tool_name @ '': '' @ exc_str e))
          else Inl e
      | Inr m \<Rightarrow> Inr m)"

section \<open>Tool materialization (app.py, initialize_agent)\<close>

text \<open>
  The state of the loop over the tool references: the version table
  (\<open>tool_versions\<close>), the paths that exist under \<open>temp_tools\<close>, the artifact URLs
  \<open>download_tool\<close> has requested so far, the variable \<open>tool_config\<close> (unbound until a
  branch assigns it, and kept from one iteration to the next) and \<open>updated_tools\<close>.
\<close>

record mstate =
  versions :: "(string \<times> string) list"
  paths :: "string list"
  downloads :: "string list"
  tool_config_var :: "(string \<times> connection) option"
  updated_tools :: "(string \<times> connection) list"

text \<open>
  The body of the \<open>try\<close> in \<open>download_tool\<close>: the request, the status check, the
  checksum, then the file is opened and written, which the file system may refuse (a
  file name with a directory part that does not exist, or an empty one).
\<close>

definition download_tool_try ::
  "world \<Rightarrow> string \<Rightarrow> string \<Rightarrow> string \<Rightarrow> mstate \<Rightarrow> mstate \<times> (py_exception + string)" where
  "download_tool_try w tool_name file_name url s =
     (case requests_get w url of
        Inl msg \<Rightarrow> (s, Inl (PyExc RequestException msg))
      | Inr r \<Rightarrow>
          (case raise_for_status r url of
             Some e \<Rightarrow> (s, Inl e)
           | None \<Rightarrow>
               if status_code r = 200 then
                 (case open_wb w (''temp_tools/'' @ tool_name @ ''/'' @ file_name) of
                    Some e \<Rightarrow> (s, Inl e)
                  | None \<Rightarrow>
                      (s\<lparr>paths := List.insert (''temp_tools/'' @ tool_name @ ''/'' @ file_name) (paths s)\<rparr>,
                       Inr (sha256_hexdigest w (raw_content r))))
               else (s, Inl (PyExc PlainException
                 (''Unexpected status code '' @ str_nat (status_code r)
                   @ '' when downloading '' @ file_name @ '' for '' @ tool_name)))))"

text \<open>
  \<open>download_tool\<close>: the directory of the tool is made before the \<open>try\<close>, so an
  exception of \<open>os.makedirs\<close> leaves the function as it is; inside the \<open>try\<close> only a
  \<open>RequestException\<close> is caught and wrapped.
\<close>

definition download_tool ::
  "world \<Rightarrow> string \<Rightarrow> string \<Rightarrow> string \<Rightarrow> mstate \<Rightarrow> mstate \<times> (py_exception + string)" where
  "download_tool w tool_name file_name github_url s =
     (let url = github_url @ ''/tools/'' @ tool_name @ ''/'' @ file_name in
      case os_makedirs w (''temp_tools/'' @ tool_name) of
        Some e \<Rightarrow> (s, Inl e)
      | None \<Rightarrow>
          (case download_tool_try w tool_name file_name url
                  (s\<lparr>paths := List.insert (''temp_tools/'' @ tool_name) (paths s),
                     downloads := downloads s @ [url]\<rparr>) of
             (s2, Inl e) \<Rightarrow>
               if is_request_exception (exc_class_of e) then
                 (s2, Inl (PyExc PlainException
                   (''Failed to download '' @ file_name @ '' for '' @ tool_name @ '': '' @ exc_str e)))
               else (s2, Inl e)
           | (s2, Inr checksum) \<Rightarrow> (s2, Inr checksum)))"

definition install_dependencies :: "world \<Rightarrow> string list \<Rightarrow> py_exception option" where
  "install_dependencies w deps = (if deps \<noteq> [] then pip_install w deps else None)"

text \<open>
  A tool reference of the stored configuration; \<open>github_url\<close> and \<open>ref_url\<close> (the
  key \<open>url\<close>) are \<open>None\<close> when the key is absent.
\<close>

record tool_ref =
  name :: string
  github_url :: "string option"
  ref_url :: "string option"

record user_config =
  tool_config :: "tool_ref list"
  instructions :: string
  env_vars :: "(string \<times> (string \<times> string) list) list"
  selected_model :: string
  tool_versions :: "(string \<times> string) list"

definition key_error :: "string \<Rightarrow> py_exception" where
  "key_error k = PyExc KeyError (quoted k)"

definition stdio_config :: "user_config \<Rightarrow> string \<Rightarrow> string \<Rightarrow> string \<times> connection" where
  "stdio_config config tool_name file_name =
     (tool_name,
      Stdio ''python'' [''temp_tools/'' @ tool_name @ ''/'' @ file_name]
        (case map_of (env_vars config) tool_name of None \<Rightarrow> [] | Some vars \<Rightarrow> vars))"

definition sse_config :: "tool_ref \<Rightarrow> manifest \<Rightarrow> string \<times> connection" where
  "sse_config tool m =
     (name tool, Sse (case ref_url tool of Some u \<Rightarrow> Some u | None \<Rightarrow> remote_url m))"

text \<open>\<open>updated_tools.append(tool_config)\<close>, the last statement of the \<open>try\<close>.\<close>

definition append_tool_config :: "mstate \<Rightarrow> mstate \<times> py_exception option" where
  "append_tool_config s =
     (case tool_config_var s of
        None \<Rightarrow> (s, Some (PyExc UnboundLocalError
          ''cannot access local variable 'tool_config' where it is not associated with a value''))
      | Some tc \<Rightarrow> (s\<lparr>updated_tools := updated_tools s @ [tc]\<rparr>, None))"

text \<open>The branch taken when the versions differ or the artifact is not there.\<close>

definition materialize_fresh ::
  "world \<Rightarrow> user_config \<Rightarrow> mstate \<Rightarrow> tool_ref \<Rightarrow> string \<Rightarrow> manifest \<Rightarrow> string
     \<Rightarrow> mstate \<times> py_exception option" where
  "materialize_fresh w config s tool gh m current_version =
     (case transport m of
        None \<Rightarrow> (s, Some (key_error ''transport''))
      | Some t \<Rightarrow>
          if t = ''stdio'' then
            (case entry_file m of
               None \<Rightarrow> (s, Some (key_error ''file''))
             | Some f \<Rightarrow>
                 (case download_tool w (name tool) f gh s of
                    (s1, Inl e) \<Rightarrow> (s1, Some e)
                  | (s1, Inr checksum) \<Rightarrow>
                      (case install_dependencies w
                              (case dependencies m of None \<Rightarrow> [] | Some ds \<Rightarrow> ds) of
                         Some e \<Rightarrow> (s1, Some e)
                       | None \<Rightarrow>
                           append_tool_config
                             (s1\<lparr>tool_config_var := Some (stdio_config config (name tool) f),
                                 versions := AList.update (name tool) current_version (versions s1)\<rparr>))))
          else if t = ''sse'' then
            append_tool_config
              (s\<lparr>tool_config_var := Some (sse_config tool m),
                 versions := AList.update (name tool) current_version (versions s)\<rparr>)
          else append_tool_config s)"

text \<open>The branch taken when the cached version is current and the artifact exists.\<close>

definition materialize_cached ::
  "user_config \<Rightarrow> mstate \<Rightarrow> tool_ref \<Rightarrow> manifest \<Rightarrow> string \<Rightarrow> mstate \<times> py_exception option" where
  "materialize_cached config s tool m f =
     (case transport m of
        None \<Rightarrow> (s, Some (key_error ''transport''))
      | Some t \<Rightarrow>
          if t = ''stdio'' then
            append_tool_config (s\<lparr>tool_config_var := Some (stdio_config config (name tool) f)\<rparr>)
          else if t = ''sse'' then
            append_tool_config (s\<lparr>tool_config_var := Some (sse_config tool m)\<rparr>)
          else append_tool_config s)"

text \<open>
  The body of the per-tool \<open>try\<close>. In the condition \<open>current_version != cached_version
  or not os.path.exists(...)\<close> the path, and with it \<open>manifest['file']\<close>, is evaluated
  only when the versions are equal.
\<close>

definition registry_of :: "tool_ref \<Rightarrow> string" where
  "registry_of tool = (case github_url tool of None \<Rightarrow> TOOL_MARKET_URL | Some u \<Rightarrow> u)"

definition materialize_tool ::
  "world \<Rightarrow> user_config \<Rightarrow> mstate \<Rightarrow> tool_ref \<Rightarrow> mstate \<times> py_exception option" where
  "materialize_tool w config s tool =
     (let gh = registry_of tool in
      case fetch_tool_manifest w (name tool) gh of
        Inl e \<Rightarrow> (s, Some e)
      | Inr m \<Rightarrow>
          (case version m of
             None \<Rightarrow> (s, Some (key_error ''version''))
           | Some current_version \<Rightarrow>
               if current_version
                    \<noteq> (case map_of (versions s) (name tool) of None \<Rightarrow> ''0.0.0'' | Some v \<Rightarrow> v)
               then materialize_fresh w config s tool gh m current_version
               else
                 (case entry_file m of
                    None \<Rightarrow> (s, Some (key_error ''file''))
                  | Some f \<Rightarrow>
                      if \<not> os_path_exists w (paths s) (''temp_tools/'' @ name tool @ ''/'' @ f)
                      then materialize_fresh w config s tool gh m current_version
                      else materialize_cached config s tool m f)))"

text \<open>
  The loop: \<open>except Exception: continue\<close> drops the exception of a tool and goes on
  with the state as the tool left it.
\<close>

fun materialize :: "world \<Rightarrow> user_config \<Rightarrow> mstate \<Rightarrow> tool_ref list \<Rightarrow> mstate" where
  "materialize w config s [] = s"
| "materialize w config s (tool # rest) =
     materialize w config (fst (materialize_tool w config s tool)) rest"

text \<open>The dictionary handed to the MCP client: one entry per name, the last one wins.\<close>

fun build_connections ::
  "(string \<times> connection) list \<Rightarrow> (string \<times> connection) list \<Rightarrow> (string \<times> connection) list" where
  "build_connections conns [] = conns"
| "build_connections conns (tc # rest) = build_connections (AList.update (fst tc) (snd tc) conns) rest"

section \<open>Agent construction (models/agent.py) and the process-wide handle (app.py)\<close>

text \<open>
  An MCP client is known by a number given at its creation. The handle keeps the
  model, the tools that \<open>get_tools\<close> returns, the prompt and \<open>_client\<close>. The
  temperature, 0.1 on both branches, is left out of \<open>llm\<close>; its two numbers are the
  model id and \<open>max_tokens\<close>.
\<close>

record agent_handle =
  agent_model :: llm
  agent_tools :: "string list"
  agent_prompt :: string
  agent_client :: "nat option"

record app_state =
  agent :: "agent_handle option"
  tool_count :: "nat option"
  users_collection :: "(string \<times> user_config) list"
  temp_tools :: "string list"
  artifact_requests :: "string list"
  next_client :: nat
  open_clients :: "nat list"

definition SYSTEM_PROMPT :: string where
  "SYSTEM_PROMPT =
     ''<ROLE>You are a smart agent with an ability to use tools... (same as Streamlit app) ... </OUTPUT_FORMAT>''"

text \<open>
  The first half of \<open>create_agent\<close>: no client without MCP; otherwise a new client
  is made and entered and its tools are read.
\<close>

definition connect_tools ::
  "world \<Rightarrow> (string \<times> connection) list \<Rightarrow> bool \<Rightarrow> app_state
     \<Rightarrow> (py_exception + string list \<times> nat option) \<times> app_state" where
  "connect_tools w mcp_config use_mcp st =
     (if \<not> use_mcp then (Inr ([], None), st)
      else
        (case mcp_connect w mcp_config of
           Inl e \<Rightarrow> (Inl e, st\<lparr>next_client := Suc (next_client st)\<rparr>)
         | Inr ts \<Rightarrow>
             (Inr (ts, Some (next_client st)),
              st\<lparr>next_client := Suc (next_client st),
                 open_clients := open_clients st @ [next_client st]\<rparr>)))"

definition select_model :: "string \<Rightarrow> llm" where
  "select_model model_id =
     (if prefix ''claude'' model_id then ChatAnthropic model_id 8192
      else ChatOpenAI model_id 16000)"

definition construct_model :: "world \<Rightarrow> string \<Rightarrow> py_exception option" where
  "construct_model w model_id =
     (if prefix ''claude'' model_id then chat_anthropic w model_id else chat_openai w model_id)"

definition create_agent ::
  "world \<Rightarrow> (string \<times> connection) list \<Rightarrow> string \<Rightarrow> string \<Rightarrow> bool \<Rightarrow> app_state
     \<Rightarrow> (py_exception + agent_handle) \<times> app_state" where
  "create_agent w mcp_config model_id prompt use_mcp st =
     (case connect_tools w mcp_config use_mcp st of
        (Inl e, st1) \<Rightarrow> (Inl e, st1)
      | (Inr (tools, client), st1) \<Rightarrow>
          (case construct_model w model_id of
             Some e \<Rightarrow> (Inl e, st1)
           | None \<Rightarrow>
               (case create_react_agent w (select_model model_id) tools prompt of
                  Some e \<Rightarrow> (Inl e, st1)
                | None \<Rightarrow>
                    (Inr \<lparr>agent_model = select_model model_id, agent_tools = tools,
                          agent_prompt = prompt, agent_client = client\<rparr>, st1))))"

definition default_config :: user_config where
  "default_config =
     \<lparr>tool_config = [], instructions = [], env_vars = [], selected_model = ''gpt-4o'',
      tool_versions = []\<rparr>"

definition load_user_config :: "string \<Rightarrow> app_state \<Rightarrow> user_config \<times> app_state" where
  "load_user_config user_id st =
     (case map_of (users_collection st) user_id of
        None \<Rightarrow>
          (default_config,
           st\<lparr>users_collection := AList.update user_id default_config (users_collection st)\<rparr>)
      | Some config \<Rightarrow> (config, st))"

definition save_user_config :: "string \<Rightarrow> user_config \<Rightarrow> app_state \<Rightarrow> app_state" where
  "save_user_config user_id config st =
     st\<lparr>users_collection := AList.update user_id config (users_collection st)\<rparr>"

definition updated_prompt :: "user_config \<Rightarrow> string" where
  "updated_prompt config =
     (if instructions config \<noteq> [] then SYSTEM_PROMPT @ [CHR 0x0A, CHR 0x0A] @ instructions config
      else SYSTEM_PROMPT)"

text \<open>
  The tool part of \<open>initialize_agent\<close>: the staging directory is removed and made
  again, then the loop runs from the stored version table.
\<close>

definition materialize_all :: "world \<Rightarrow> user_config \<Rightarrow> app_state \<Rightarrow> mstate" where
  "materialize_all w config st =
     materialize w config
       \<lparr>versions = tool_versions config, paths = [''temp_tools''],
        downloads = artifact_requests st, tool_config_var = None, updated_tools = []\<rparr>
       (tool_config config)"

text \<open>
  \<open>initialize_agent\<close> up to the call of \<open>create_agent\<close>: the configuration is
  loaded, the tools are materialized, the connections are collected and the
  configuration is saved with the new version table. No exception of a tool leaves
  the loop, so this part has no exception among its results.
\<close>

definition materialize_connections ::
  "world \<Rightarrow> string \<Rightarrow> app_state \<Rightarrow> (string \<times> connection) list \<times> user_config \<times> app_state" where
  "materialize_connections w user_id st =
     (case load_user_config user_id st of
        (config, st1) \<Rightarrow>
          (let ms = materialize_all w config st1 in
           (build_connections [] (updated_tools ms), config,
            save_user_config user_id (config\<lparr>tool_versions := versions ms\<rparr>)
              (st1\<lparr>temp_tools := paths ms, artifact_requests := downloads ms\<rparr>))))"

definition initialize_agent :: "world \<Rightarrow> string \<Rightarrow> app_state \<Rightarrow> app_state \<times> py_exception option" where
  "initialize_agent w user_id st =
     (case materialize_connections w user_id st of
        (mcp_config, config, st2) \<Rightarrow>
          (case create_agent w mcp_config (selected_model config) (updated_prompt config)
                  (mcp_config \<noteq> []) st2 of
             (Inl e, st3) \<Rightarrow> (st3, Some e)
           | (Inr agent_instance, st3) \<Rightarrow>
               (st3\<lparr>tool_count := Some (length (agent_tools agent_instance)),
                    agent := Some agent_instance\<rparr>, None)))"

text \<open>\<open>shutdown\<close>: the one place that leaves the context of the MCP client.\<close>

definition shutdown :: "app_state \<Rightarrow> app_state" where
  "shutdown st =
     (case agent st of
        None \<Rightarrow> st\<lparr>agent := None\<rparr>
      | Some a \<Rightarrow>
          (case agent_client a of
             None \<Rightarrow> st\<lparr>agent := None\<rparr>
           | Some c \<Rightarrow> st\<lparr>open_clients := removeAll c (open_clients st), agent := None\<rparr>))"

section \<open>Streaming query executor (app.py, ask and generate)\<close>

text \<open>
  The events written to the response stream, without their JSON and
  \<open>data: ...\<close> framing: \<open>{"text": t}\<close>, \<open>{"tool": t}\<close> with an optional
  \<open>tool_label\<close>, and \<open>{"error": m}\<close>.
\<close>

datatype output_event =
    TextDelta string
  | ToolDelta string "string option"
  | Error string

text \<open>
  The attributes of an \<open>AIMessage\<close> or \<open>AIMessageChunk\<close> that \<open>generate\<close> reads;
  \<open>tool_call_chunks\<close> is \<open>None\<close> on a message that has no such attribute. A message
  is one of these, a \<open>ToolMessage\<close> with its content, or of another class.
\<close>

record ai_message =
  ai_content :: pyval
  tool_calls :: "pyval list"
  invalid_tool_calls :: "pyval list"
  tool_call_chunks :: "pyval list option"
  additional_kwargs :: "(string \<times> pyval) list"

datatype message =
    AIMessage ai_message
  | ToolMessage pyval
  | OtherMessage

text \<open>
  A chunk of the agent's stream either is a dict with messages under \<open>'agent'\<close> or is
  passed over. The stream, as the loop sees it, is the chunks it delivers and the way
  the iteration ends after them: exhausted, cut by the deadline of \<open>asyncio.timeout\<close>
  while the next chunk is awaited, or by an exception of the agent.

  The \<open>yield\<close> statements of the loop stand inside the \<open>async with\<close> block, so the
  deadline can also come while \<open>generate\<close> is suspended at one of them, waiting for
  its consumer. \<open>deadline_at_yield = Some k\<close> says that this happens at the yield
  number \<open>k\<close> of the run, counted from 0; it has no effect when the run has fewer
  yields inside the block. The task is then cancelled outside the generator, the
  generator is closed at that yield, and what passes through the block and the
  \<open>except\<close> clauses is a \<open>GeneratorExit\<close>, which neither of them handles.
\<close>

datatype chunk =
    AgentChunk "message list"
  | OtherChunk

datatype stream_end =
    Exhausted
  | DeadlineElapsed
  | Raised py_exception

record agent_stream =
  chunks :: "chunk list"
  ending :: stream_end
  deadline_at_yield :: "nat option"

record buffers =
  accumulated_text :: "string list"
  accumulated_tool :: "string list"
  emitted :: "output_event list"

definition tool_block :: "string \<Rightarrow> string" where
  "tool_block s = [CHR 0x0A] @ ''```json'' @ [CHR 0x0A] @ s @ [CHR 0x0A] @ ''```'' @ [CHR 0x0A]"

definition emit_text :: "buffers \<Rightarrow> string \<Rightarrow> buffers" where
  "emit_text b fragment =
     b\<lparr>accumulated_text := accumulated_text b @ [fragment],
       emitted := emitted b @ [TextDelta (concat (accumulated_text b @ [fragment]))]\<rparr>"

definition emit_tool :: "buffers \<Rightarrow> string \<Rightarrow> string option \<Rightarrow> buffers" where
  "emit_tool b fragment label =
     b\<lparr>accumulated_tool := accumulated_tool b @ [tool_block fragment],
       emitted := emitted b @ [ToolDelta (concat (accumulated_tool b @ [tool_block fragment])) label]\<rparr>"

text \<open>\<open>v.get(key, default)\<close>: a dict has it, another value has no attribute \<open>get\<close>.\<close>

fun py_get :: "pyval \<Rightarrow> string \<Rightarrow> pyval \<Rightarrow> py_exception + pyval" where
  "py_get (PDict d) k dflt = Inr (case map_of d k of None \<Rightarrow> dflt | Some v \<Rightarrow> v)"
| "py_get v k dflt =
     Inl (PyExc AttributeError (quoted (type_name v) @ '' object has no attribute '' @ quoted ''get''))"

fun py_len :: "pyval \<Rightarrow> py_exception + nat" where
  "py_len (PStr s) = Inr (length s)"
| "py_len (PList xs) = Inr (length xs)"
| "py_len (PDict d) = Inr (length d)"
| "py_len v = Inl (PyExc TypeError (''object of type '' @ quoted (type_name v) @ '' has no len()''))"

text \<open>\<open>v[0]\<close>.\<close>

fun py_first :: "pyval \<Rightarrow> py_exception + pyval" where
  "py_first (PList (x # xs)) = Inr x"
| "py_first (PList []) = Inl (PyExc IndexError ''list index out of range'')"
| "py_first (PStr (c # cs)) = Inr (PStr [c])"
| "py_first (PStr []) = Inl (PyExc IndexError ''string index out of range'')"
| "py_first (PDict d) = Inl (PyExc KeyError ''0'')"
| "py_first v = Inl (PyExc TypeError (quoted (type_name v) @ '' object is not subscriptable''))"

text \<open>
  A \<open>for\<close> loop whose body may raise: the loop stops at the first exception, with the
  state the body left.
\<close>

fun for_each ::
  "('s \<Rightarrow> 'a \<Rightarrow> 's \<times> py_exception option) \<Rightarrow> 's \<Rightarrow> 'a list \<Rightarrow> 's \<times> py_exception option" where
  "for_each body s [] = (s, None)"
| "for_each body s (x # xs) =
     (case body s x of
        (s', None) \<Rightarrow> for_each body s' xs
      | (s', Some e) \<Rightarrow> (s', Some e))"

text \<open>
  One item of a list content. \<open>str_of\<close> is Python's \<open>str\<close> on the values the code
  formats. A \<open>"text"\<close> item whose text is not a \<open>str\<close> is appended and makes the join
  that follows raise; the buffers are not read again after that.
\<close>

definition process_item :: "(pyval \<Rightarrow> string) \<Rightarrow> buffers \<Rightarrow> pyval \<Rightarrow> buffers \<times> py_exception option" where
  "process_item str_of b item =
     (case py_get item ''type'' PNone of
        Inl e \<Rightarrow> (b, Some e)
      | Inr t \<Rightarrow>
          if t = PStr ''text'' then
            (case subscript item ''text'' of
               Inl e \<Rightarrow> (b, Some e)
             | Inr v \<Rightarrow>
                 (case v of
                    PStr s \<Rightarrow> (emit_text b s, None)
                  | _ \<Rightarrow> (b, Some (PyExc TypeError
                      (''sequence item '' @ str_nat (length (accumulated_text b))
                        @ '': expected str instance, '' @ type_name v @ '' found'')))))
          else if t = PStr ''tool_use'' then
            (case py_get item ''partial_json'' (PStr []) of
               Inl e \<Rightarrow> (b, Some e)
             | Inr tool_data \<Rightarrow> (emit_tool b (str_of tool_data) None, None))
          else (b, None))"

text \<open>The \<open>elif\<close> chain on the tool-call attributes, last branch first.\<close>

definition additional_kwargs_branch ::
  "(pyval \<Rightarrow> string) \<Rightarrow> buffers \<Rightarrow> ai_message \<Rightarrow> buffers \<times> py_exception option" where
  "additional_kwargs_branch str_of b m =
     (case map_of (additional_kwargs m) ''tool_calls'' of
        None \<Rightarrow> (b, None)
      | Some v \<Rightarrow>
          (case py_first v of
             Inl e \<Rightarrow> (b, Some e)
           | Inr tool_call_info \<Rightarrow> (emit_tool b (str_of tool_call_info) None, None)))"

definition tool_call_chunks_branch ::
  "(pyval \<Rightarrow> string) \<Rightarrow> buffers \<Rightarrow> ai_message \<Rightarrow> buffers \<times> py_exception option" where
  "tool_call_chunks_branch str_of b m =
     (case tool_call_chunks m of
        Some (tool_call_chunk # rest) \<Rightarrow> (emit_tool b (str_of tool_call_chunk) None, None)
      | _ \<Rightarrow> additional_kwargs_branch str_of b m)"

definition invalid_tool_calls_branch ::
  "(pyval \<Rightarrow> string) \<Rightarrow> buffers \<Rightarrow> ai_message \<Rightarrow> buffers \<times> py_exception option" where
  "invalid_tool_calls_branch str_of b m =
     (case invalid_tool_calls m of
        tool_call_info # rest \<Rightarrow>
          (emit_tool b (str_of tool_call_info) (Some ''Invalid Tool Call''), None)
      | [] \<Rightarrow> tool_call_chunks_branch str_of b m)"

definition tool_calls_branch ::
  "(pyval \<Rightarrow> string) \<Rightarrow> buffers \<Rightarrow> ai_message \<Rightarrow> buffers \<times> py_exception option" where
  "tool_calls_branch str_of b m =
     (case tool_calls m of
        [] \<Rightarrow> invalid_tool_calls_branch str_of b m
      | tool_call_info # rest \<Rightarrow>
          (case subscript tool_call_info ''name'' of
             Inl e \<Rightarrow> (b, Some e)
           | Inr nm \<Rightarrow>
               (case py_len nm of
                  Inl e \<Rightarrow> (b, Some e)
                | Inr n \<Rightarrow>
                    if n > 0 then (emit_tool b (str_of tool_call_info) None, None)
                    else invalid_tool_calls_branch str_of b m)))"

definition process_message ::
  "(pyval \<Rightarrow> string) \<Rightarrow> buffers \<Rightarrow> message \<Rightarrow> buffers \<times> py_exception option" where
  "process_message str_of b msg =
     (case msg of
        AIMessage m \<Rightarrow>
          (case ai_content m of
             PStr s \<Rightarrow>
               if s \<noteq> [] then (emit_text b s, None) else tool_calls_branch str_of b m
           | PList items \<Rightarrow>
               if items \<noteq> [] then for_each (process_item str_of) b items
               else tool_calls_branch str_of b m
           | _ \<Rightarrow> tool_calls_branch str_of b m)
      | ToolMessage c \<Rightarrow> (emit_tool b (str_of c) (Some ''Tool Response''), None)
      | OtherMessage \<Rightarrow> (b, None))"

definition process_chunk ::
  "(pyval \<Rightarrow> string) \<Rightarrow> buffers \<Rightarrow> chunk \<Rightarrow> buffers \<times> py_exception option" where
  "process_chunk str_of b c =
     (case c of
        AgentChunk msgs \<Rightarrow> for_each (process_message str_of) b msgs
      | OtherChunk \<Rightarrow> (b, None))"

definition no_output :: buffers where
  "no_output = \<lparr>accumulated_text = [], accumulated_tool = [], emitted = []\<rparr>"

text \<open>The reduction of the delivered chunks, from empty buffers.\<close>

definition reduce_chunks :: "(pyval \<Rightarrow> string) \<Rightarrow> chunk list \<Rightarrow> buffers \<times> py_exception option" where
  "reduce_chunks str_of cs = for_each (process_chunk str_of) no_output cs"

text \<open>
  How the \<open>async with asyncio.timeout(...)\<close> block is left: at its end, by an
  exception, or by the closing of the generator at a yield, with the events yielded
  up to there.
\<close>

datatype block_result =
    Finished buffers
  | Threw buffers py_exception
  | Closed "output_event list"

text \<open>
  Leaving the block when no deadline has come at a yield: an exception of the
  reduction, or else the way the stream ends. The deadline comes out of the block as
  a \<open>TimeoutError\<close>.
\<close>

definition leave_block :: "buffers \<Rightarrow> py_exception option \<Rightarrow> stream_end \<Rightarrow> block_result" where
  "leave_block b raised e =
     (case raised of
        Some exc \<Rightarrow> Threw b exc
      | None \<Rightarrow>
          (case e of
             Exhausted \<Rightarrow> Finished b
           | DeadlineElapsed \<Rightarrow> Threw b (PyExc TimeoutError [])
           | Raised exc \<Rightarrow> Threw b exc))"

text \<open>
  The block. The reduction only appends to the events it has emitted, and each
  emitted event is one yield, so the events yielded up to the yield number \<open>k\<close> are
  the first \<open>k + 1\<close> events of the reduction; nothing after that yield runs.
\<close>

definition consume :: "(pyval \<Rightarrow> string) \<Rightarrow> agent_stream \<Rightarrow> block_result" where
  "consume str_of stream =
     (case reduce_chunks str_of (chunks stream) of
        (b, raised) \<Rightarrow>
          (case deadline_at_yield stream of
             None \<Rightarrow> leave_block b raised (ending stream)
           | Some k \<Rightarrow>
               if k < length (emitted b) then Closed (take (Suc k) (emitted b))
               else leave_block b raised (ending stream)))"

text \<open>
  What \<open>generate\<close> yields, the list \<open>history\<close> it builds after a normal end (\<open>None\<close>
  when those lines are not reached), and the checkpoint store after the call:
  \<open>generate\<close> reads the store through \<open>get_conversation_history\<close> and calls nothing
  that writes it.
\<close>

record generate_result =
  events :: "output_event list"
  history :: "history_entry list option"
  store :: checkpointer

definition completed_history ::
  "checkpointer \<Rightarrow> string \<Rightarrow> string \<Rightarrow> buffers \<Rightarrow> history_entry list" where
  "completed_history cp thread_id query b =
     (let final_text = concat (accumulated_text b);
          final_tool = concat (accumulated_tool b);
          h0 = get_conversation_history cp thread_id;
          h1 = h0 @ [\<lparr>role = ''user'', content = PStr query\<rparr>];
          h2 = (if final_text \<noteq> [] then h1 @ [\<lparr>role = ''assistant'', content = PStr final_text\<rparr>]
                else h1);
          h3 = (if final_tool \<noteq> []
                then h2 @ [\<lparr>role = ''assistant_tool'', content = PStr final_tool\<rparr>] else h2)
      in h3)"

definition generate ::
  "(pyval \<Rightarrow> string) \<Rightarrow> checkpointer \<Rightarrow> bool \<Rightarrow> string \<Rightarrow> string \<Rightarrow> int \<Rightarrow> agent_stream
     \<Rightarrow> generate_result" where
  "generate str_of cp agent_ready query thread_id timeout_seconds stream =
     (if \<not> agent_ready then
        \<lparr>events = [Error ''Agent has not been initialized.''], history = None, store = cp\<rparr>
      else
        (case consume str_of stream of
           Finished b \<Rightarrow>
             \<lparr>events = emitted b, history = Some (completed_history cp thread_id query b),
              store = cp\<rparr>
         | Threw b e \<Rightarrow>
             if exc_class_of e = TimeoutError then
               \<lparr>events = emitted b @
                  [Error (''Request timed out after '' @ str_int timeout_seconds @ '' seconds'')],
                history = None, store = cp\<rparr>
             else
               \<lparr>events = emitted b @
                  [Error (''Error occurred during query processing: '' @ exc_str e)],
                history = None, store = cp\<rparr>
         | Closed yielded \<Rightarrow> \<lparr>events = yielded, history = None, store = cp\<rparr>))"

text \<open>The payloads of the text events and of the tool events, in order of emission.\<close>

fun text_payloads :: "output_event list \<Rightarrow> string list" where
  "text_payloads [] = []"
| "text_payloads (TextDelta t # evs) = t # text_payloads evs"
| "text_payloads (ev # evs) = text_payloads evs"

fun tool_payloads :: "output_event list \<Rightarrow> string list" where
  "tool_payloads [] = []"
| "tool_payloads (ToolDelta t label # evs) = t # tool_payloads evs"
| "tool_payloads (ev # evs) = tool_payloads evs"

fun error_messages :: "output_event list \<Rightarrow> string list" where
  "error_messages [] = []"
| "error_messages (Error m # evs) = m # error_messages evs"
| "error_messages (ev # evs) = error_messages evs"

text \<open>Each element is the one before it with something appended.\<close>

fun prefix_chain :: "string list \<Rightarrow> bool" where
  "prefix_chain [] = True"
| "prefix_chain [p] = True"
| "prefix_chain (p # q # rest) = (prefix p q \<and> prefix_chain (q # rest))"

text \<open>
  The invariant of the reduction: no error among the emitted events, and the
  payloads of each kind form a chain of prefixes that ends below the join of its
  buffer.
\<close>

definition reduction_inv :: "buffers \<Rightarrow> bool" where
  "reduction_inv b \<longleftrightarrow>
     error_messages (emitted b) = [] \<and>
     prefix_chain (text_payloads (emitted b)) \<and>
     (\<forall>p \<in> set (text_payloads (emitted b)). prefix p (concat (accumulated_text b))) \<and>
     prefix_chain (tool_payloads (emitted b)) \<and>
     (\<forall>p \<in> set (tool_payloads (emitted b)). prefix p (concat (accumulated_tool b)))"

text \<open>A stand-in for \<open>str\<close> in the examples: a \<open>str\<close> is itself.\<close>

fun demo_str :: "pyval \<Rightarrow> string" where
  "demo_str (PStr s) = s"
| "demo_str v = type_name v"

definition text_message :: "string \<Rightarrow> message" where
  "text_message s =
     AIMessage \<lparr>ai_content = PStr s, tool_calls = [], invalid_tool_calls = [],
                tool_call_chunks = None, additional_kwargs = []\<rparr>"

section \<open>Example worlds\<close>

text \<open>
  A registry at \<open>https://a.example\<close> that serves the subprocess tools \<open>weather\<close> and
  \<open>notes\<close> and a remote tool \<open>search\<close>, and answers 404 for everything else; a file
  system in which a path exists when it was made and in which the entry file of
  \<open>notes\<close>, \<open>src/notes.py\<close>, cannot be opened for want of its directory; libraries
  that accept every call. \<open>no_key_world\<close> differs in the OpenAI constructor, which
  raises.
\<close>

definition weather_manifest :: manifest where
  "weather_manifest =
     \<lparr>version = Some ''1.0.0'', transport = Some ''stdio'', entry_file = Some ''server.py'',
      dependencies = Some [], remote_url = None\<rparr>"

definition search_manifest :: manifest where
  "search_manifest =
     \<lparr>version = Some ''2.1.0'', transport = Some ''sse'', entry_file = Some ''search.py'',
      dependencies = None, remote_url = Some ''https://search.example/sse''\<rparr>"

definition notes_manifest :: manifest where
  "notes_manifest =
     \<lparr>version = Some ''0.3.0'', transport = Some ''stdio'', entry_file = Some ''src/notes.py'',
      dependencies = Some [], remote_url = None\<rparr>"

definition not_found :: response where
  "not_found =
     \<lparr>status_code = 404, reason = ''Not Found'',
      json_body = Inl ''Expecting value: line 1 column 1 (char 0)'',
      raw_content = ''404: Not Found''\<rparr>"

definition demo_registry :: "string \<Rightarrow> string + response" where
  "demo_registry u =
     (if u = ''https://a.example/tools/weather/manifest.json'' then
        Inr \<lparr>status_code = 200, reason = ''OK'', json_body = Inr weather_manifest,
             raw_content = []\<rparr>
      else if u = ''https://a.example/tools/weather/server.py'' then
        Inr \<lparr>status_code = 200, reason = ''OK'',
             json_body = Inl ''Expecting value: line 1 column 1 (char 0)'',
             raw_content = ''print(1)''\<rparr>
      else if u = ''https://a.example/tools/search/manifest.json'' then
        Inr \<lparr>status_code = 200, reason = ''OK'', json_body = Inr search_manifest,
             raw_content = []\<rparr>
      else if u = ''https://a.example/tools/notes/manifest.json'' then
        Inr \<lparr>status_code = 200, reason = ''OK'', json_body = Inr notes_manifest,
             raw_content = []\<rparr>
      else if u = ''https://a.example/tools/notes/src/notes.py'' then
        Inr \<lparr>status_code = 200, reason = ''OK'',
             json_body = Inl ''Expecting value: line 1 column 1 (char 0)'',
             raw_content = ''print(2)''\<rparr>
      else Inr not_found)"

definition demo_world :: world where
  "demo_world =
     \<lparr>requests_get = demo_registry,
      sha256_hexdigest = (\<lambda>bytes. []),
      pip_install = (\<lambda>deps. None),
      os_makedirs = (\<lambda>path. None),
      open_wb = (\<lambda>path.
        if path = ''temp_tools/notes/src/notes.py''
        then Some (PyExc OSError
          ''[Errno 2] No such file or directory: 'temp_tools/notes/src/notes.py' '')
        else None),
      os_path_exists = (\<lambda>made path. path \<in> set made),
      mcp_connect = (\<lambda>cfg. Inr (map fst cfg)),
      chat_anthropic = (\<lambda>m. None),
      chat_openai = (\<lambda>m. None),
      create_react_agent = (\<lambda>m ts p. None)\<rparr>"

definition no_key_world :: world where
  "no_key_world =
     demo_world\<lparr>chat_openai := (\<lambda>m. Some (PyExc OtherException ''Did not find openai_api_key''))\<rparr>"

definition weather_ref :: tool_ref where
  "weather_ref = \<lparr>name = ''weather'', github_url = Some ''https://a.example'', ref_url = None\<rparr>"

definition broken_ref :: tool_ref where
  "broken_ref = \<lparr>name = ''weather'', github_url = Some ''https://b.example'', ref_url = None\<rparr>"

definition notes_ref :: tool_ref where
  "notes_ref = \<lparr>name = ''notes'', github_url = Some ''https://a.example'', ref_url = None\<rparr>"

definition search_ref :: tool_ref where
  "search_ref = \<lparr>name = ''search'', github_url = Some ''https://a.example'', ref_url = None\<rparr>"

definition fresh_process :: app_state where
  "fresh_process =
     \<lparr>agent = None, tool_count = None, users_collection = [], temp_tools = [],
      artifact_requests = [], next_client = 0, open_clients = []\<rparr>"

text \<open>Stored configurations for the examples, all for the user \<open>u1\<close>.\<close>

definition config_with :: "tool_ref list \<Rightarrow> (string \<times> string) list \<Rightarrow> user_config" where
  "config_with refs vs =
     \<lparr>tool_config = refs, instructions = [], env_vars = [], selected_model = ''gpt-4o'',
      tool_versions = vs\<rparr>"

definition process_with :: "user_config \<Rightarrow> app_state" where
  "process_with config = fresh_process\<lparr>users_collection := [(''u1'', config)]\<rparr>"

section \<open>Readings of the contracts\<close>












text \<open>
  The tools a build has in hand: none without MCP, those of the client when the
  connection is made; there are none to speak of when the connection fails.
\<close>

definition connected_tools ::
  "world \<Rightarrow> (string \<times> connection) list \<Rightarrow> bool \<Rightarrow> string list option" where
  "connected_tools w mcp_config use_mcp =
     (if use_mcp then (case mcp_connect w mcp_config of Inl e \<Rightarrow> None | Inr ts \<Rightarrow> Some ts)
      else Some [])"

text \<open>
  The three failure cases of the registry contract, written from its words: the
  request fails, the status is not 200, or the body is not JSON.
\<close>

definition registry_failure :: "world \<Rightarrow> string \<Rightarrow> bool" where
  "registry_failure w url =
     (case requests_get w url of
        Inl msg \<Rightarrow> True
      | Inr r \<Rightarrow> status_code r \<noteq> 200 \<or> (case json_body r of Inl msg \<Rightarrow> True | Inr m \<Rightarrow> False))"


section \<open>Properties of the conversation history\<close>

lemma text_items_ok:
  "list_all item_ok items \<Longrightarrow>
     \<exists>vs. text_items items = Inr vs \<and> str_join i vs = Inr (concat (map item_text items))"
proof (induction items arbitrary: i)
  case Nil
  then show ?case by simp
next
  case (Cons item rest)
  then obtain d where d: "item = PDict d" by (cases item) auto
  from Cons.prems d obtain t where t: "map_of d ''type'' = Some t"
    by (auto split: option.splits)
  have rest: "list_all item_ok rest" using Cons.prems by simp
  show ?case
  proof (cases "t = PStr ''text''")
    case True
    with Cons.prems d t obtain s where s: "map_of d ''text'' = Some (PStr s)"
      by (auto split: option.splits pyval.splits)
    from Cons.IH [OF rest, of "Suc i"] obtain vs where
      vs: "text_items rest = Inr vs" "str_join (Suc i) vs = Inr (concat (map item_text rest))"
      by blast
    show ?thesis using d t True s vs by simp
  next
    case False
    from Cons.IH [OF rest, of i] obtain vs where
      vs: "text_items rest = Inr vs" "str_join i vs = Inr (concat (map item_text rest))"
      by blast
    show ?thesis using d t False vs by simp
  qed
qed

lemma flatten_content_ok:
  "content_ok c \<Longrightarrow> flatten_content c = Inr (flat_text c)"
proof (cases c)
  case (PList items)
  assume "content_ok c"
  with PList have "list_all item_ok items" by (simp add: content_ok_def)
  from text_items_ok [OF this, of 0] obtain vs where
    "text_items items = Inr vs" "str_join 0 vs = Inr (concat (map item_text items))"
    by blast
  with PList show ?thesis by (simp add: flatten_content_def flat_text_def)
qed (simp_all add: flatten_content_def flat_text_def)

lemma text_items_bad:
  "\<not> list_all item_ok items \<Longrightarrow>
     (\<exists>e. text_items items = Inl e) \<or>
     (\<exists>vs e. text_items items = Inr vs \<and> str_join i vs = Inl e)"
proof (induction items arbitrary: i)
  case Nil
  then show ?case by simp
next
  case (Cons item rest)
  show ?case
  proof (cases "item_ok item")
    case False
    then show ?thesis
      by (cases item) (auto split: option.splits pyval.splits if_splits sum.splits)
  next
    case True
    then obtain d where d: "item = PDict d" by (cases item) auto
    from True d obtain t where t: "map_of d ''type'' = Some t"
      by (auto split: option.splits)
    have rest: "\<not> list_all item_ok rest" using Cons.prems True by simp
    show ?thesis
    proof (cases "t = PStr ''text''")
      case tt: True
      with True d t obtain s where s: "map_of d ''text'' = Some (PStr s)"
        by (auto split: option.splits pyval.splits)
      from Cons.IH [OF rest, of "Suc i"] show ?thesis
        using d t tt s by (auto split: sum.splits)
    next
      case ff: False
      from Cons.IH [OF rest, of i] show ?thesis
        using d t ff by auto
    qed
  qed
qed

lemma flatten_content_bad:
  "\<not> content_ok c \<Longrightarrow> \<exists>e. flatten_content c = Inl e"
proof (cases c)
  case (PList items)
  assume "\<not> content_ok c"
  with PList have "\<not> list_all item_ok items" by (simp add: content_ok_def)
  from text_items_bad [OF this, of 0] PList show ?thesis
    by (auto simp: flatten_content_def)
qed (simp_all add: content_ok_def)

lemma history_loop_ok:
  "list_all (\<lambda>m. content_ok (msg_content m)) ms \<Longrightarrow>
     history_loop acc ms = Inr (acc @ map history_view ms)"
  by (induction ms arbitrary: acc) (simp_all add: flatten_content_ok history_view_def)

lemma history_loop_bad:
  "\<not> list_all (\<lambda>m. content_ok (msg_content m)) ms \<Longrightarrow> \<exists>e. history_loop acc ms = Inl e"
proof (induction ms arbitrary: acc)
  case Nil
  then show ?case by simp
next
  case (Cons m rest)
  show ?case
  proof (cases "content_ok (msg_content m)")
    case True
    with Cons.prems have "\<not> list_all (\<lambda>m. content_ok (msg_content m)) rest" by simp
    from Cons.IH [OF this] show ?thesis by (simp add: flatten_content_ok True)
  next
    case False
    from flatten_content_bad [OF this] show ?thesis by auto
  qed
qed

text \<open>
  What the function returns, read off the top-level key: nothing for a thread
  without a checkpoint; otherwise the view of the messages under that key when every
  list content can be flattened, and nothing when one cannot.
\<close>

lemma get_conversation_history_top_level:
  "(map_of cp thread_id = None \<longrightarrow> get_conversation_history cp thread_id = []) \<and>
   (\<forall>state. map_of cp thread_id = Some state \<longrightarrow>
      get_conversation_history cp thread_id =
        (if list_all (\<lambda>m. content_ok (msg_content m)) (state_messages state)
         then map history_view (state_messages state) else []))"
proof (intro conjI allI impI)
  assume "map_of cp thread_id = None"
  then show "get_conversation_history cp thread_id = []"
    by (simp add: get_conversation_history_def)
next
  fix state
  assume st: "map_of cp thread_id = Some state"
  show "get_conversation_history cp thread_id =
        (if list_all (\<lambda>m. content_ok (msg_content m)) (state_messages state)
         then map history_view (state_messages state) else [])"
  proof (cases "list_all (\<lambda>m. content_ok (msg_content m)) (state_messages state)")
    case True
    from history_loop_ok [OF True, of "[]"] st True show ?thesis
      by (simp add: get_conversation_history_def state_messages_def)
  next
    case False
    from history_loop_bad [OF False, of "[]"] st False show ?thesis
      by (auto simp: get_conversation_history_def state_messages_def)
  qed
qed

lemma get_conversation_history_no_key:
  "map_of cp thread_id = Some state \<Longrightarrow> messages state = None \<Longrightarrow>
     get_conversation_history cp thread_id = []"
  by (simp add: get_conversation_history_def)

text \<open>
  C8. A thread whose checkpoint holds a human message and an answer, kept where the
  checkpointer keeps them and with no top-level \<open>"messages"\<close> key, as every checkpoint
  of the \<open>MemorySaver\<close> is: \<open>get_conversation_history\<close> returns the empty list, where
  the contract gives the two messages in order with the roles \<open>user\<close> and
  \<open>assistant\<close>.
\<close>

theorem get_conversation_history_reads_top_level_key:
  "get_conversation_history
     [(''t1'', \<lparr>messages = None,
              channel_messages =
                [\<lparr>msg_type = ''human'', msg_content = PStr ''hi''\<rparr>,
                 \<lparr>msg_type = ''ai'', msg_content = PStr ''hello''\<rparr>]\<rparr>)] ''t1'' = [] \<and>
   map history_view
     (channel_messages
        \<lparr>messages = None,
         channel_messages =
           [\<lparr>msg_type = ''human'', msg_content = PStr ''hi''\<rparr>,
            \<lparr>msg_type = ''ai'', msg_content = PStr ''hello''\<rparr>]\<rparr>)
     = [\<lparr>role = ''user'', content = PStr ''hi''\<rparr>,
        \<lparr>role = ''assistant'', content = PStr ''hello''\<rparr>]"
  by (simp add: get_conversation_history_def history_view_def history_role_def flat_text_def)

section \<open>Properties of the registry client\<close>

lemma raise_for_status_200: "status_code r = 200 \<Longrightarrow> raise_for_status r url = None"
  by (simp add: raise_for_status_def)

lemma raise_for_status_class:
  "raise_for_status r url = Some e \<Longrightarrow> exc_class_of e = HTTPError"
  by (auto simp: raise_for_status_def split: if_splits)

lemma fetch_try_failure_class:
  "fetch_tool_manifest_try w n url = Inl e \<Longrightarrow>
     is_request_exception (exc_class_of e) \<or> exc_class_of e = PlainException"
  by (auto simp: fetch_tool_manifest_try_def split: sum.splits option.splits if_splits
      dest: raise_for_status_class)

lemma fetch_try_success:
  "fetch_tool_manifest_try w n url = Inr m \<longleftrightarrow>
     (\<exists>r. requests_get w url = Inr r \<and> status_code r = 200 \<and> json_body r = Inr m)"
  by (auto simp: fetch_tool_manifest_try_def raise_for_status_200
      split: sum.splits option.splits if_splits)

lemma fetch_success:
  "fetch_tool_manifest w n gh = Inr m \<longleftrightarrow>
     (\<exists>r. requests_get w (gh @ ''/tools/'' @ n @ ''/manifest.json'') = Inr r
          \<and> status_code r = 200 \<and> json_body r = Inr m)"
proof -
  have "fetch_tool_manifest w n gh = Inr m \<longleftrightarrow>
        fetch_tool_manifest_try w n (gh @ ''/tools/'' @ n @ ''/manifest.json'') = Inr m"
    by (simp add: fetch_tool_manifest_def Let_def split: sum.splits)
  then show ?thesis by (simp only: fetch_try_success)
qed

lemma fetch_failure_class:
  "fetch_tool_manifest w n gh = Inl e \<Longrightarrow> exc_class_of e = PlainException"
  by (auto simp: fetch_tool_manifest_def Let_def split: sum.splits if_splits
      dest: fetch_try_failure_class)

text \<open>
  C9. A manifest fetch fails exactly when the request fails, the status is not 200
  or the body is not JSON, and then with one kind of exception, the plain
  \<open>Exception\<close> the function raises itself; otherwise it returns the decoded body.
\<close>

theorem fetch_tool_manifest_contract:
  "(registry_failure w (gh @ ''/tools/'' @ n @ ''/manifest.json'') \<longrightarrow>
      (\<exists>text. fetch_tool_manifest w n gh = Inl (PyExc PlainException text))) \<and>
   (\<not> registry_failure w (gh @ ''/tools/'' @ n @ ''/manifest.json'') \<longrightarrow>
      (\<exists>r m. requests_get w (gh @ ''/tools/'' @ n @ ''/manifest.json'') = Inr r
         \<and> json_body r = Inr m \<and> fetch_tool_manifest w n gh = Inr m))"
proof (intro conjI impI)
  assume f: "registry_failure w (gh @ ''/tools/'' @ n @ ''/manifest.json'')"
  have "\<not> (\<exists>m. fetch_tool_manifest w n gh = Inr m)"
    using f by (auto simp: fetch_success registry_failure_def)
  then obtain e where e: "fetch_tool_manifest w n gh = Inl e"
    by (cases "fetch_tool_manifest w n gh") auto
  from fetch_failure_class [OF e] have "e = PyExc PlainException (exc_str e)"
    by (cases e) simp
  with e show "\<exists>text. fetch_tool_manifest w n gh = Inl (PyExc PlainException text)"
    by metis
next
  assume "\<not> registry_failure w (gh @ ''/tools/'' @ n @ ''/manifest.json'')"
  then obtain r m where
    "requests_get w (gh @ ''/tools/'' @ n @ ''/manifest.json'') = Inr r"
    "status_code r = 200" "json_body r = Inr m"
    by (auto simp: registry_failure_def split: sum.splits)
  then show "\<exists>r m. requests_get w (gh @ ''/tools/'' @ n @ ''/manifest.json'') = Inr r
         \<and> json_body r = Inr m \<and> fetch_tool_manifest w n gh = Inr m"
    using fetch_success [of w n gh m] by auto
qed

theorem fetch_tool_manifest_contract_witness:
  "registry_failure demo_world (''https://b.example'' @ ''/tools/'' @ ''weather'' @ ''/manifest.json'') \<and>
   (\<exists>text. fetch_tool_manifest demo_world ''weather'' ''https://b.example''
      = Inl (PyExc PlainException text)) \<and>
   \<not> registry_failure demo_world (''https://a.example'' @ ''/tools/'' @ ''weather'' @ ''/manifest.json'') \<and>
   fetch_tool_manifest demo_world ''weather'' ''https://a.example'' = Inr weather_manifest"
  using fetch_tool_manifest_contract [of demo_world "''https://b.example''" "''weather''"]
    fetch_tool_manifest_contract [of demo_world "''https://a.example''" "''weather''"]
  by (simp add: registry_failure_def demo_world_def demo_registry_def not_found_def)

section \<open>Properties of agent construction\<close>

lemma create_agent_model:
  assumes h: "create_agent w cfg model_id prompt use_mcp st = (Inr a, st')"
  shows "agent_model a = select_model model_id"
proof -
  obtain r st1 where c: "connect_tools w cfg use_mcp st = (r, st1)"
    by (cases "connect_tools w cfg use_mcp st")
  show ?thesis
  proof (cases r)
    case (Inl e)
    with h c show ?thesis by (simp add: create_agent_def)
  next
    case (Inr tc)
    obtain ts cl where "tc = (ts, cl)" by (cases tc)
    with h c Inr show ?thesis
      by (auto simp: create_agent_def split: option.splits)
  qed
qed

lemma create_agent_tool_free:
  "construct_model w model_id = None \<Longrightarrow>
   create_react_agent w (select_model model_id) [] prompt = None \<Longrightarrow>
   create_agent w cfg model_id prompt False st =
     (Inr \<lparr>agent_model = select_model model_id,
           agent_tools = [], agent_prompt = prompt, agent_client = None\<rparr>, st)"
  by (simp add: create_agent_def connect_tools_def)

lemma create_agent_connected:
  assumes "connected_tools w cfg use_mcp = Some ts"
  shows "\<exists>client st1. connect_tools w cfg use_mcp st = (Inr (ts, client), st1)"
  using assms
  by (auto simp: connected_tools_def connect_tools_def split: if_splits sum.splits)

lemma construct_model_world:
  "construct_model w model_id
     = (if prefix ''claude'' model_id then chat_anthropic w model_id else chat_openai w model_id)"
  by (simp add: construct_model_def)

lemma select_model_world:
  "select_model model_id
     = (if prefix ''claude'' model_id then ChatAnthropic model_id 8192
        else ChatOpenAI model_id 16000)"
  by (simp add: select_model_def)

lemma create_agent_built:
  assumes "connected_tools w cfg use_mcp = Some ts"
    and "construct_model w model_id = None"
    and "create_react_agent w (select_model model_id) ts prompt = None"
  shows "\<exists>a st'. create_agent w cfg model_id prompt use_mcp st = (Inr a, st')
           \<and> agent_model a = select_model model_id \<and> agent_tools a = ts"
proof -
  from create_agent_connected [OF assms(1), of st] obtain client st1 where
    "connect_tools w cfg use_mcp st = (Inr (ts, client), st1)" by blast
  with assms(2,3) show ?thesis by (simp add: create_agent_def)
qed

lemma create_agent_constructor_raises:
  assumes "connected_tools w cfg use_mcp = Some ts"
    and "construct_model w model_id = Some e"
  shows "\<exists>st'. create_agent w cfg model_id prompt use_mcp st = (Inl e, st')"
proof -
  from create_agent_connected [OF assms(1), of st] obtain client st1 where
    "connect_tools w cfg use_mcp st = (Inr (ts, client), st1)" by blast
  with assms(2) show ?thesis by (simp add: create_agent_def)
qed

text \<open>
  C5 (as amended). The backend is a function of the model id alone: an id that starts
  with \<open>claude\<close> gets the Anthropic backend with 8192 output tokens, every other id,
  whatever its family, gets the OpenAI backend with 16000; the selection rejects no
  id. When the tool connection, if there is one, is made, and the constructor of the
  selected backend and the graph construction accept the call, the build succeeds
  with that backend and those tools; when that constructor raises, the build fails
  with its exception.
\<close>

theorem create_agent_model_selection:
  "(\<forall>a st'. create_agent w cfg model_id prompt use_mcp st = (Inr a, st') \<longrightarrow>
      agent_model a = (if prefix ''claude'' model_id then ChatAnthropic model_id 8192
                       else ChatOpenAI model_id 16000)) \<and>
   (\<forall>ts. connected_tools w cfg use_mcp = Some ts
      \<and> (if prefix ''claude'' model_id then chat_anthropic w model_id
          else chat_openai w model_id) = None
      \<and> create_react_agent w
           (if prefix ''claude'' model_id then ChatAnthropic model_id 8192
            else ChatOpenAI model_id 16000) ts prompt = None
    \<longrightarrow> (\<exists>a st'. create_agent w cfg model_id prompt use_mcp st = (Inr a, st')
           \<and> agent_model a = (if prefix ''claude'' model_id then ChatAnthropic model_id 8192
                                else ChatOpenAI model_id 16000)
           \<and> agent_tools a = ts)) \<and>
   (\<forall>ts e. connected_tools w cfg use_mcp = Some ts
      \<and> (if prefix ''claude'' model_id then chat_anthropic w model_id
          else chat_openai w model_id) = Some e
    \<longrightarrow> (\<exists>st'. create_agent w cfg model_id prompt use_mcp st = (Inl e, st')))"
proof (intro conjI allI impI)
  fix a st'
  assume "create_agent w cfg model_id prompt use_mcp st = (Inr a, st')"
  from create_agent_model [OF this]
  show "agent_model a = (if prefix ''claude'' model_id then ChatAnthropic model_id 8192
                       else ChatOpenAI model_id 16000)"
    by (simp only: select_model_world)
next
  fix ts
  assume h: "connected_tools w cfg use_mcp = Some ts
      \<and> (if prefix ''claude'' model_id then chat_anthropic w model_id
          else chat_openai w model_id) = None
      \<and> create_react_agent w
           (if prefix ''claude'' model_id then ChatAnthropic model_id 8192
            else ChatOpenAI model_id 16000) ts prompt = None"
  then have "connected_tools w cfg use_mcp = Some ts"
    and "construct_model w model_id = None"
    and "create_react_agent w (select_model model_id) ts prompt = None"
    by (simp_all only: construct_model_world select_model_world)
  from create_agent_built [OF this, of st]
  show "\<exists>a st'. create_agent w cfg model_id prompt use_mcp st = (Inr a, st')
           \<and> agent_model a = (if prefix ''claude'' model_id then ChatAnthropic model_id 8192
                                else ChatOpenAI model_id 16000)
           \<and> agent_tools a = ts"
    by (simp only: select_model_world)
next
  fix ts e
  assume h: "connected_tools w cfg use_mcp = Some ts
      \<and> (if prefix ''claude'' model_id then chat_anthropic w model_id
          else chat_openai w model_id) = Some e"
  then have "connected_tools w cfg use_mcp = Some ts" and "construct_model w model_id = Some e"
    by (simp_all only: construct_model_world)
  from create_agent_constructor_raises [OF this, of prompt st]
  show "\<exists>st'. create_agent w cfg model_id prompt use_mcp st = (Inl e, st')" .
qed

theorem create_agent_model_selection_witness:
  "connected_tools demo_world [(''search'', Sse (Some ''https://search.example/sse''))] True
     = Some [''search''] \<and>
   (\<exists>a st'. create_agent demo_world [(''search'', Sse (Some ''https://search.example/sse''))]
              ''mistral-large'' ''p'' True fresh_process = (Inr a, st')
        \<and> agent_model a = ChatOpenAI ''mistral-large'' 16000 \<and> agent_tools a = [''search'']) \<and>
   connected_tools demo_world [] False = Some [] \<and>
   (\<exists>a st'. create_agent demo_world [] ''claude-3-5-haiku-latest'' ''p'' False fresh_process
              = (Inr a, st')
        \<and> agent_model a = ChatAnthropic ''claude-3-5-haiku-latest'' 8192 \<and> agent_tools a = []) \<and>
   (\<exists>st'. create_agent no_key_world [] ''gpt-4o'' ''p'' False fresh_process
            = (Inl (PyExc OtherException ''Did not find openai_api_key''), st'))"
proof -
  have c1: "connected_tools demo_world [(''search'', Sse (Some ''https://search.example/sse''))] True
     = Some [''search'']"
    by (simp add: connected_tools_def demo_world_def)
  have c2: "connected_tools demo_world [] False = Some []"
    and c3: "connected_tools no_key_world [] False = Some []"
    by (simp_all add: connected_tools_def)
  have w1: "chat_openai demo_world ''mistral-large'' = None"
    "create_react_agent demo_world (ChatOpenAI ''mistral-large'' 16000) [''search''] ''p'' = None"
    "chat_anthropic demo_world ''claude-3-5-haiku-latest'' = None"
    "create_react_agent demo_world (ChatAnthropic ''claude-3-5-haiku-latest'' 8192) [] ''p'' = None"
    by (simp_all add: demo_world_def)
  have w2: "chat_openai no_key_world ''gpt-4o''
              = Some (PyExc OtherException ''Did not find openai_api_key'')"
    by (simp add: no_key_world_def)
  from create_agent_model_selection
         [of demo_world "[(''search'', Sse (Some ''https://search.example/sse''))]"
             "''mistral-large''" "''p''" True fresh_process] c1 w1
  have a: "\<exists>a st'. create_agent demo_world [(''search'', Sse (Some ''https://search.example/sse''))]
              ''mistral-large'' ''p'' True fresh_process = (Inr a, st')
        \<and> agent_model a = ChatOpenAI ''mistral-large'' 16000 \<and> agent_tools a = [''search'']"
    by simp
  from create_agent_model_selection
         [of demo_world "[]" "''claude-3-5-haiku-latest''" "''p''" False fresh_process] c2 w1
  have b: "\<exists>a st'. create_agent demo_world [] ''claude-3-5-haiku-latest'' ''p'' False fresh_process
              = (Inr a, st')
        \<and> agent_model a = ChatAnthropic ''claude-3-5-haiku-latest'' 8192 \<and> agent_tools a = []"
    by simp
  from create_agent_model_selection [of no_key_world "[]" "''gpt-4o''" "''p''" False fresh_process]
    c3 w2
  have c: "\<exists>st'. create_agent no_key_world [] ''gpt-4o'' ''p'' False fresh_process
            = (Inl (PyExc OtherException ''Did not find openai_api_key''), st')"
    by simp
  from a b c c1 c2 show ?thesis by blast
qed

text \<open>
  C5, as first stated, fails on a model id of a family the code does not know: the
  build does not fail, it constructs the OpenAI backend for it.
\<close>

theorem create_agent_unknown_family_counterexample:
  "create_agent demo_world [] ''llama-3-70b'' ''p'' False fresh_process =
     (Inr \<lparr>agent_model = ChatOpenAI ''llama-3-70b'' 16000, agent_tools = [],
           agent_prompt = ''p'', agent_client = None\<rparr>, fresh_process)"
  by (simp add: create_agent_def connect_tools_def construct_model_def select_model_def
      demo_world_def)

lemma materialize_all_no_tools:
  "tool_config config = [] \<Longrightarrow>
     updated_tools (materialize_all w config st) = [] \<and>
     versions (materialize_all w config st) = tool_versions config"
  by (simp add: materialize_all_def)

text \<open>
  C4. With zero tool references the MCP client is left out: no client is made or
  entered, and \<open>initialize_agent\<close> succeeds and installs a handle with no tools and
  no client, the tool count being 0. The build of the model backend and of the graph,
  which the absence of tools does not touch, is taken to go through.
\<close>

theorem initialize_agent_tool_free:
  assumes "load_user_config user_id st = (config, st1)"
    and "tool_config config = []"
    and "(if prefix ''claude'' (selected_model config) then chat_anthropic w (selected_model config)
          else chat_openai w (selected_model config)) = None"
    and "create_react_agent w
           (if prefix ''claude'' (selected_model config)
            then ChatAnthropic (selected_model config) 8192
            else ChatOpenAI (selected_model config) 16000) [] (updated_prompt config) = None"
  shows "\<exists>st'. initialize_agent w user_id st = (st', None)
           \<and> agent st' = Some \<lparr>agent_model =
                                  (if prefix ''claude'' (selected_model config)
                                   then ChatAnthropic (selected_model config) 8192
                                   else ChatOpenAI (selected_model config) 16000),
                                agent_tools = [], agent_prompt = updated_prompt config,
                                agent_client = None\<rparr>
           \<and> tool_count st' = Some 0
           \<and> open_clients st' = open_clients st \<and> next_client st' = next_client st"
proof -
  have ms: "updated_tools (materialize_all w config st1) = []"
    using materialize_all_no_tools [OF assms(2)] by simp
  have st1: "open_clients st1 = open_clients st \<and> next_client st1 = next_client st"
    using assms(1) by (auto simp: load_user_config_def split: option.splits)
  have c: "construct_model w (selected_model config) = None"
    using assms(3) by (simp only: construct_model_world)
  have g: "create_react_agent w (select_model (selected_model config)) []
             (updated_prompt config) = None"
    using assms(4) by (simp only: select_model_world)
  show ?thesis
    using assms(1) ms st1 create_agent_tool_free [OF c g]
    by (simp add: initialize_agent_def materialize_connections_def Let_def save_user_config_def
        select_model_world)
qed

theorem initialize_agent_tool_free_witness:
  "load_user_config ''u1'' fresh_process
     = (default_config, fresh_process\<lparr>users_collection := [(''u1'', default_config)]\<rparr>) \<and>
   tool_config default_config = [] \<and>
   (\<exists>st'. initialize_agent demo_world ''u1'' fresh_process = (st', None)
      \<and> agent st' = Some \<lparr>agent_model = ChatOpenAI ''gpt-4o'' 16000, agent_tools = [],
                           agent_prompt = SYSTEM_PROMPT, agent_client = None\<rparr>
      \<and> tool_count st' = Some 0 \<and> open_clients st' = [] \<and> next_client st' = 0)"
proof -
  have l: "load_user_config ''u1'' fresh_process
     = (default_config, fresh_process\<lparr>users_collection := [(''u1'', default_config)]\<rparr>)"
    by (simp add: load_user_config_def fresh_process_def)
  have t: "tool_config default_config = []" by (simp add: default_config_def)
  have m: "selected_model default_config = ''gpt-4o''" by (simp add: default_config_def)
  have c: "(if prefix ''claude'' (selected_model default_config)
            then chat_anthropic demo_world (selected_model default_config)
            else chat_openai demo_world (selected_model default_config)) = None"
    by (simp add: demo_world_def)
  have g: "create_react_agent demo_world
             (if prefix ''claude'' (selected_model default_config)
              then ChatAnthropic (selected_model default_config) 8192
              else ChatOpenAI (selected_model default_config) 16000) []
             (updated_prompt default_config) = None"
    by (simp add: demo_world_def)
  have p: "updated_prompt default_config = SYSTEM_PROMPT"
    by (simp add: updated_prompt_def default_config_def)
  from initialize_agent_tool_free [OF l t c g] m p l t show ?thesis
    by (simp add: fresh_process_def)
qed

text \<open>
  Without tools too, an exception of the constructor of the selected backend ends the
  initialization: it is the backend, not the absence of tools, that fails.
\<close>

lemma initialize_agent_tool_free_backend_failure:
  assumes "load_user_config user_id st = (config, st1)"
    and "tool_config config = []"
    and "(if prefix ''claude'' (selected_model config) then chat_anthropic w (selected_model config)
          else chat_openai w (selected_model config)) = Some e"
  shows "snd (initialize_agent w user_id st) = Some e"
proof -
  have ms: "updated_tools (materialize_all w config st1) = []"
    using materialize_all_no_tools [OF assms(2)] by simp
  have c: "construct_model w (selected_model config) = Some e"
    using assms(3) by (simp only: construct_model_world)
  show ?thesis
    using assms(1) ms c
    by (simp add: initialize_agent_def materialize_connections_def Let_def save_user_config_def
        create_agent_def connect_tools_def)
qed

section \<open>Properties of tool materialization\<close>







lemma append_tool_config_bound:
  "tool_config_var s = Some tc \<Longrightarrow>
     append_tool_config s = (s\<lparr>updated_tools := updated_tools s @ [tc]\<rparr>, None)"
  by (simp add: append_tool_config_def)


lemma append_tool_config_names:
  "set (updated_tools (fst (append_tool_config s)))
     \<subseteq> set (updated_tools s) \<union> set_option (tool_config_var s)"
  by (auto simp: append_tool_config_def split: option.splits)
























lemmas run_defs =
  materialize_connections_def load_user_config_def materialize_all_def materialize_tool_def
  materialize_fresh_def materialize_cached_def append_tool_config_def fetch_tool_manifest_def
  fetch_tool_manifest_try_def raise_for_status_def download_tool_def download_tool_try_def
  install_dependencies_def sse_config_def stdio_config_def registry_of_def save_user_config_def
  demo_world_def demo_registry_def not_found_def weather_manifest_def search_manifest_def
  notes_manifest_def weather_ref_def broken_ref_def notes_ref_def search_ref_def
  fresh_process_def config_with_def process_with_def Let_def





lemma append_tool_config_downloads:
  "downloads (fst (append_tool_config s)) = downloads s"
  by (simp add: append_tool_config_def split: option.splits)

lemma download_tool_downloads:
  "os_makedirs w (''temp_tools/'' @ n) = None \<Longrightarrow>
     downloads (fst (download_tool w n f gh s)) = downloads s @ [gh @ ''/tools/'' @ n @ ''/'' @ f]"
  by (simp add: download_tool_def download_tool_try_def Let_def
      split: sum.splits option.splits prod.splits)

lemma download_tool_downloads_prefix:
  "prefix (downloads s) (downloads (fst (download_tool w n f gh s)))"
  by (cases "os_makedirs w (''temp_tools/'' @ n)")
    (simp_all add: download_tool_downloads, simp add: download_tool_def Let_def)

lemma materialize_fresh_downloads:
  "prefix (downloads s) (downloads (fst (materialize_fresh w config s tool gh m v)))"
proof (cases "\<exists>f. transport m = Some ''stdio'' \<and> entry_file m = Some f")
  case True
  then obtain f where f: "transport m = Some ''stdio''" "entry_file m = Some f" by blast
  obtain s1 r where d: "download_tool w (name tool) f gh s = (s1, r)"
    by (cases "download_tool w (name tool) f gh s")
  with download_tool_downloads_prefix [of s w "name tool" f gh]
  have "prefix (downloads s) (downloads s1)" by simp
  with f d show ?thesis
    by (auto simp: materialize_fresh_def append_tool_config_downloads
        split: sum.splits option.splits)
next
  case False
  then show ?thesis
    by (auto simp: materialize_fresh_def append_tool_config_downloads split: option.splits)
qed

lemma materialize_tool_downloads:
  "prefix (downloads s) (downloads (fst (materialize_tool w config s tool)))"
  using materialize_fresh_downloads [of s w config tool]
  by (auto simp: materialize_tool_def materialize_cached_def append_tool_config_downloads Let_def
      split: sum.splits option.splits)

lemma materialize_downloads:
  "prefix (downloads s) (downloads (materialize w config s tools))"
proof (induction tools arbitrary: s)
  case Nil
  then show ?case by simp
next
  case (Cons tool rest)
  from materialize_tool_downloads [of s w config tool]
    Cons.IH [of "fst (materialize_tool w config s tool)"]
  show ?case by (auto intro: prefix_order.trans)
qed

text \<open>
  The first reference of a configuration, when it is a subprocess tool whose manifest
  is fetched and whose directory can be made, has its artifact requested in every
  initialization, whatever the stored version table says and whatever the staging
  directory held before: after the clearing only the staging directory is there.
\<close>

lemma first_subprocess_tool_downloaded:
  assumes "tool_config config = tool # rest"
    and "fetch_tool_manifest w (name tool) (registry_of tool) = Inr m"
    and "version m = Some v" and "transport m = Some ''stdio''" and "entry_file m = Some f"
    and "os_makedirs w (''temp_tools/'' @ name tool) = None"
    and "\<not> os_path_exists w [''temp_tools''] (''temp_tools/'' @ name tool @ ''/'' @ f)"
  shows "prefix (artifact_requests st @ [registry_of tool @ ''/tools/'' @ name tool @ ''/'' @ f])
           (downloads (materialize_all w config st))"
proof -
  let ?s0 = "\<lparr>versions = tool_versions config, paths = [''temp_tools''],
        downloads = artifact_requests st, tool_config_var = None, updated_tools = []\<rparr>"
  have "fst (materialize_tool w config ?s0 tool)
          = fst (materialize_fresh w config ?s0 tool (registry_of tool) m v)"
    using assms(2,3,5,7) by (simp add: materialize_tool_def Let_def)
  moreover obtain s1 r where d: "download_tool w (name tool) f (registry_of tool) ?s0 = (s1, r)"
    by (cases "download_tool w (name tool) f (registry_of tool) ?s0")
  moreover from d download_tool_downloads [OF assms(6), of f "registry_of tool" ?s0]
  have "downloads s1
          = artifact_requests st @ [registry_of tool @ ''/tools/'' @ name tool @ ''/'' @ f]"
    by simp
  ultimately have "downloads (fst (materialize_tool w config ?s0 tool))
          = artifact_requests st @ [registry_of tool @ ''/tools/'' @ name tool @ ''/'' @ f]"
    using assms(4,5)
    by (auto simp: materialize_fresh_def append_tool_config_downloads
        split: sum.splits option.splits)
  with materialize_downloads [of "fst (materialize_tool w config ?s0 tool)" w config rest] assms(1)
  show ?thesis by (simp add: materialize_all_def)
qed

lemma weather_first_run:
  "initialize_agent demo_world ''u1'' (process_with (config_with [weather_ref] []))
     = (\<lparr>agent = Some \<lparr>agent_model = ChatOpenAI ''gpt-4o'' 16000, agent_tools = [''weather''],
                         agent_prompt = SYSTEM_PROMPT, agent_client = Some 0\<rparr>,
         tool_count = Some 1,
         users_collection = [(''u1'', config_with [weather_ref] [(''weather'', ''1.0.0'')])],
         temp_tools = [''temp_tools/weather/server.py'', ''temp_tools/weather'', ''temp_tools''],
         artifact_requests = [''https://a.example/tools/weather/server.py''],
         next_client = 1, open_clients = [0]\<rparr>, None)"
  by (simp add: initialize_agent_def run_defs create_agent_def connect_tools_def
      construct_model_def select_model_def updated_prompt_def)

text \<open>
  C6. The second initialization of an unchanged configuration: the first run has
  stored the manifest's version and written the artifact, and the second run
  requests the same artifact again, because the staging directory is emptied before
  the loop looks for it.
\<close>

theorem rematerialization_downloads_again:
  "fst (initialize_agent demo_world ''u1'' (process_with (config_with [weather_ref] [])))
     = \<lparr>agent = Some \<lparr>agent_model = ChatOpenAI ''gpt-4o'' 16000, agent_tools = [''weather''],
                        agent_prompt = SYSTEM_PROMPT, agent_client = Some 0\<rparr>,
        tool_count = Some 1,
        users_collection = [(''u1'', config_with [weather_ref] [(''weather'', ''1.0.0'')])],
        temp_tools = [''temp_tools/weather/server.py'', ''temp_tools/weather'', ''temp_tools''],
        artifact_requests = [''https://a.example/tools/weather/server.py''],
        next_client = 1, open_clients = [0]\<rparr> \<and>
   version weather_manifest = Some ''1.0.0'' \<and>
   artifact_requests
     (fst (initialize_agent demo_world ''u1''
        (fst (initialize_agent demo_world ''u1'' (process_with (config_with [weather_ref] []))))))
     = [''https://a.example/tools/weather/server.py'',
        ''https://a.example/tools/weather/server.py'']"
  by (simp add: weather_first_run)
    (simp add: initialize_agent_def run_defs create_agent_def connect_tools_def
      construct_model_def select_model_def updated_prompt_def)

section \<open>Properties of the process-wide handle\<close>

lemma create_agent_open_clients:
  "create_agent w cfg model_id prompt use_mcp st = (r, st') \<Longrightarrow>
     prefix (open_clients st) (open_clients st')"
  by (auto simp: create_agent_def connect_tools_def
      split: if_splits sum.splits option.splits prod.splits)

lemma initialize_agent_releases_nothing:
  "prefix (open_clients st) (open_clients (fst (initialize_agent w user_id st)))"
proof -
  obtain mcp_config config st2 where
    m: "materialize_connections w user_id st = (mcp_config, config, st2)"
    by (cases "materialize_connections w user_id st") auto
  then have o: "open_clients st2 = open_clients st"
    by (auto simp: materialize_connections_def load_user_config_def save_user_config_def Let_def
        split: option.splits)
  obtain r st3 where
    c: "create_agent w mcp_config (selected_model config) (updated_prompt config)
          (mcp_config \<noteq> []) st2 = (r, st3)"
    by (cases "create_agent w mcp_config (selected_model config) (updated_prompt config)
          (mcp_config \<noteq> []) st2")
  from create_agent_open_clients [OF c] o m c show ?thesis
    by (cases r) (simp_all add: initialize_agent_def)
qed

lemma search_first_run:
  "initialize_agent demo_world ''u1'' (process_with (config_with [search_ref] []))
     = (\<lparr>agent = Some \<lparr>agent_model = ChatOpenAI ''gpt-4o'' 16000, agent_tools = [''search''],
                         agent_prompt = SYSTEM_PROMPT, agent_client = Some 0\<rparr>,
         tool_count = Some 1,
         users_collection = [(''u1'', config_with [search_ref] [(''search'', ''2.1.0'')])],
         temp_tools = [''temp_tools''], artifact_requests = [],
         next_client = 1, open_clients = [0]\<rparr>, None)"
  by (simp add: initialize_agent_def run_defs create_agent_def connect_tools_def
      construct_model_def select_model_def updated_prompt_def)

lemma search_second_run:
  "initialize_agent demo_world ''u1''
     \<lparr>agent = Some \<lparr>agent_model = ChatOpenAI ''gpt-4o'' 16000, agent_tools = [''search''],
                      agent_prompt = SYSTEM_PROMPT, agent_client = Some 0\<rparr>,
      tool_count = Some 1,
      users_collection = [(''u1'', config_with [search_ref] [(''search'', ''2.1.0'')])],
      temp_tools = [''temp_tools''], artifact_requests = [],
      next_client = 1, open_clients = [0]\<rparr>
     = (\<lparr>agent = Some \<lparr>agent_model = ChatOpenAI ''gpt-4o'' 16000, agent_tools = [''search''],
                         agent_prompt = SYSTEM_PROMPT, agent_client = Some 1\<rparr>,
         tool_count = Some 1,
         users_collection = [(''u1'', config_with [search_ref] [(''search'', ''2.1.0'')])],
         temp_tools = [''temp_tools''], artifact_requests = [],
         next_client = 2, open_clients = [0, 1]\<rparr>, None)"
  by (simp add: initialize_agent_def run_defs create_agent_def connect_tools_def
      construct_model_def select_model_def updated_prompt_def)

text \<open>
  C7. Rebuilding the handle: after the first initialization the handle holds the
  client 0, which is open. The second initialization installs a handle with the
  client 1 and leaves the client 0 open, held by no handle; \<open>shutdown\<close>, the only
  function that leaves a client's context, then closes the client 1 alone.
\<close>

theorem reinitialization_abandons_client:
  "map_option agent_client
     (agent (fst (initialize_agent demo_world ''u1'' (process_with (config_with [search_ref] [])))))
     = Some (Some 0) \<and>
   open_clients (fst (initialize_agent demo_world ''u1'' (process_with (config_with [search_ref] []))))
     = [0] \<and>
   map_option agent_client
     (agent (fst (initialize_agent demo_world ''u1''
        (fst (initialize_agent demo_world ''u1'' (process_with (config_with [search_ref] [])))))))
     = Some (Some 1) \<and>
   open_clients (fst (initialize_agent demo_world ''u1''
        (fst (initialize_agent demo_world ''u1'' (process_with (config_with [search_ref] []))))))
     = [0, 1] \<and>
   open_clients (shutdown (fst (initialize_agent demo_world ''u1''
        (fst (initialize_agent demo_world ''u1'' (process_with (config_with [search_ref] [])))))))
     = [0]"
  unfolding search_first_run fst_conv search_second_run
  by (simp add: shutdown_def)

section \<open>Properties of the streaming query executor\<close>

lemma for_each_preserves:
  assumes step: "\<And>s x. P s \<Longrightarrow> P (fst (body s x))"
  shows "P s \<Longrightarrow> P (fst (for_each body s xs))"
proof (induction xs arbitrary: s)
  case Nil
  then show ?case by simp
next
  case (Cons x xs)
  obtain s' r where b: "body s x = (s', r)" by (cases "body s x")
  from step [OF Cons.prems, of x] b have p: "P s'" by simp
  show ?case
  proof (cases r)
    case None
    with b Cons.IH [OF p] show ?thesis by simp
  next
    case (Some e)
    with b p show ?thesis by simp
  qed
qed

lemma text_payloads_append:
  "text_payloads (xs @ ys) = text_payloads xs @ text_payloads ys"
  by (induction xs rule: text_payloads.induct) simp_all

lemma tool_payloads_append:
  "tool_payloads (xs @ ys) = tool_payloads xs @ tool_payloads ys"
  by (induction xs rule: tool_payloads.induct) simp_all

lemma error_messages_append:
  "error_messages (xs @ ys) = error_messages xs @ error_messages ys"
  by (induction xs rule: error_messages.induct) simp_all

lemma prefix_chain_snoc:
  "prefix_chain ps \<Longrightarrow> (\<forall>p \<in> set ps. prefix p q) \<Longrightarrow> prefix_chain (ps @ [q])"
  by (induction ps rule: prefix_chain.induct) simp_all

lemma inv_no_output: "reduction_inv no_output"
  by (simp add: reduction_inv_def no_output_def)

lemma inv_emit_text: "reduction_inv b \<Longrightarrow> reduction_inv (emit_text b fragment)"
  by (auto simp: reduction_inv_def emit_text_def text_payloads_append tool_payloads_append
      error_messages_append intro: prefix_chain_snoc)

lemma inv_emit_tool: "reduction_inv b \<Longrightarrow> reduction_inv (emit_tool b fragment label)"
  by (auto simp: reduction_inv_def emit_tool_def text_payloads_append tool_payloads_append
      error_messages_append intro: prefix_chain_snoc)

lemma inv_process_item:
  "reduction_inv b \<Longrightarrow> reduction_inv (fst (process_item str_of b item))"
  by (auto simp: process_item_def inv_emit_text inv_emit_tool split: sum.splits pyval.splits)

lemma inv_additional_kwargs_branch:
  "reduction_inv b \<Longrightarrow> reduction_inv (fst (additional_kwargs_branch str_of b m))"
  by (auto simp: additional_kwargs_branch_def inv_emit_tool split: sum.splits option.splits)

lemma inv_tool_call_chunks_branch:
  "reduction_inv b \<Longrightarrow> reduction_inv (fst (tool_call_chunks_branch str_of b m))"
  by (auto simp: tool_call_chunks_branch_def inv_emit_tool inv_additional_kwargs_branch
      split: option.splits list.splits)

lemma inv_invalid_tool_calls_branch:
  "reduction_inv b \<Longrightarrow> reduction_inv (fst (invalid_tool_calls_branch str_of b m))"
  by (auto simp: invalid_tool_calls_branch_def inv_emit_tool inv_tool_call_chunks_branch
      split: list.splits)

lemma inv_tool_calls_branch:
  "reduction_inv b \<Longrightarrow> reduction_inv (fst (tool_calls_branch str_of b m))"
  by (auto simp: tool_calls_branch_def inv_emit_tool inv_invalid_tool_calls_branch
      split: list.splits sum.splits)

lemma inv_process_message:
  assumes "reduction_inv b"
  shows "reduction_inv (fst (process_message str_of b msg))"
proof (cases msg)
  case (AIMessage m)
  have items: "reduction_inv (fst (for_each (process_item str_of) b items))" for items
    by (rule for_each_preserves [where P = reduction_inv and body = "process_item str_of"])
      (simp_all add: inv_process_item assms)
  show ?thesis
    using AIMessage assms items inv_tool_calls_branch [OF assms] inv_emit_text [OF assms]
    by (simp add: process_message_def split: pyval.splits)
next
  case (ToolMessage c)
  with inv_emit_tool [OF assms] show ?thesis by (simp add: process_message_def)
next
  case OtherMessage
  with assms show ?thesis by (simp add: process_message_def)
qed

lemma inv_process_chunk:
  assumes "reduction_inv b"
  shows "reduction_inv (fst (process_chunk str_of b c))"
proof (cases c)
  case (AgentChunk msgs)
  have "reduction_inv (fst (for_each (process_message str_of) b msgs))"
    by (rule for_each_preserves [where P = reduction_inv and body = "process_message str_of"])
      (simp_all add: inv_process_message assms)
  with AgentChunk show ?thesis by (simp add: process_chunk_def)
next
  case OtherChunk
  with assms show ?thesis by (simp add: process_chunk_def)
qed

lemma inv_reduce_chunks: "reduction_inv (fst (reduce_chunks str_of cs))"
  unfolding reduce_chunks_def
  by (rule for_each_preserves [where P = reduction_inv and body = "process_chunk str_of"])
    (simp_all add: inv_process_chunk inv_no_output)

lemma text_payloads_take: "\<exists>m. text_payloads (take n evs) = take m (text_payloads evs)"
proof (induction evs arbitrary: n)
  case Nil
  then show ?case by simp
next
  case (Cons ev evs)
  show ?case
  proof (cases n)
    case 0
    then show ?thesis by (simp add: exI [of _ 0])
  next
    case (Suc k)
    from Cons.IH [of k] obtain m where m: "text_payloads (take k evs) = take m (text_payloads evs)"
      by blast
    show ?thesis
    proof (cases ev)
      case (TextDelta t)
      with Suc m have "text_payloads (take n (ev # evs)) = take (Suc m) (text_payloads (ev # evs))"
        by simp
      then show ?thesis by blast
    next
      case (ToolDelta t label)
      with Suc m have "text_payloads (take n (ev # evs)) = take m (text_payloads (ev # evs))"
        by simp
      then show ?thesis by blast
    next
      case (Error msg)
      with Suc m have "text_payloads (take n (ev # evs)) = take m (text_payloads (ev # evs))"
        by simp
      then show ?thesis by blast
    qed
  qed
qed

lemma tool_payloads_take: "\<exists>m. tool_payloads (take n evs) = take m (tool_payloads evs)"
proof (induction evs arbitrary: n)
  case Nil
  then show ?case by simp
next
  case (Cons ev evs)
  show ?case
  proof (cases n)
    case 0
    then show ?thesis by (simp add: exI [of _ 0])
  next
    case (Suc k)
    from Cons.IH [of k] obtain m where m: "tool_payloads (take k evs) = take m (tool_payloads evs)"
      by blast
    show ?thesis
    proof (cases ev)
      case (TextDelta t)
      with Suc m have "tool_payloads (take n (ev # evs)) = take m (tool_payloads (ev # evs))"
        by simp
      then show ?thesis by blast
    next
      case (ToolDelta t label)
      with Suc m have "tool_payloads (take n (ev # evs)) = take (Suc m) (tool_payloads (ev # evs))"
        by simp
      then show ?thesis by blast
    next
      case (Error msg)
      with Suc m have "tool_payloads (take n (ev # evs)) = take m (tool_payloads (ev # evs))"
        by simp
      then show ?thesis by blast
    qed
  qed
qed

lemma error_messages_take:
  "error_messages evs = [] \<Longrightarrow> error_messages (take n evs) = []"
proof (induction evs arbitrary: n)
  case Nil
  then show ?case by simp
next
  case (Cons ev evs)
  then show ?case by (cases n; cases ev) simp_all
qed

lemma prefix_chain_take: "prefix_chain ps \<Longrightarrow> prefix_chain (take m ps)"
proof (induction ps arbitrary: m rule: prefix_chain.induct)
  case 1
  then show ?case by simp
next
  case (2 p)
  then show ?case by (cases m) simp_all
next
  case (3 p q rest)
  show ?case
  proof (cases m)
    case 0
    then show ?thesis by simp
  next
    case (Suc k)
    show ?thesis
    proof (cases k)
      case 0
      with Suc show ?thesis by simp
    next
      case (Suc j)
      from "3.IH" [of "Suc j"] "3.prems" have "prefix_chain (q # take j rest)" by simp
      with "3.prems" \<open>m = Suc k\<close> Suc show ?thesis by simp
    qed
  qed
qed

lemma consume_cases:
  "consume str_of stream
     = leave_block (fst (reduce_chunks str_of (chunks stream)))
         (snd (reduce_chunks str_of (chunks stream))) (ending stream)
   \<or> (\<exists>k. deadline_at_yield stream = Some k
          \<and> k < length (emitted (fst (reduce_chunks str_of (chunks stream))))
          \<and> consume str_of stream
              = Closed (take (Suc k) (emitted (fst (reduce_chunks str_of (chunks stream))))))"
  by (auto simp: consume_def split: prod.splits option.splits)

lemma generate_events:
  "\<exists>n tail. events (generate str_of cp True query thread_id timeout_seconds stream)
            = take n (emitted (fst (reduce_chunks str_of (chunks stream)))) @ tail
          \<and> text_payloads tail = [] \<and> tool_payloads tail = []"
proof -
  let ?b = "fst (reduce_chunks str_of (chunks stream))"
  from consume_cases [of str_of stream]
  show ?thesis
  proof
    assume c: "consume str_of stream
                 = leave_block ?b (snd (reduce_chunks str_of (chunks stream))) (ending stream)"
    have "\<exists>tail. events (generate str_of cp True query thread_id timeout_seconds stream)
            = take (length (emitted ?b)) (emitted ?b) @ tail
          \<and> text_payloads tail = [] \<and> tool_payloads tail = []"
      using c
      by (auto simp: generate_def leave_block_def split: option.splits stream_end.splits)
    then show ?thesis by blast
  next
    assume "\<exists>k. deadline_at_yield stream = Some k \<and> k < length (emitted ?b)
          \<and> consume str_of stream = Closed (take (Suc k) (emitted ?b))"
    then obtain k where "consume str_of stream = Closed (take (Suc k) (emitted ?b))" by blast
    then have "events (generate str_of cp True query thread_id timeout_seconds stream)
            = take (Suc k) (emitted ?b) @ []
          \<and> text_payloads [] = [] \<and> tool_payloads [] = []"
      by (simp add: generate_def)
    then show ?thesis by blast
  qed
qed

lemma generate_store:
  "store (generate str_of cp agent_ready query thread_id timeout_seconds stream) = cp"
  by (simp add: generate_def split: block_result.splits)

text \<open>
  C10. In every run of \<open>generate\<close>, ended normally, by the deadline or by an
  exception, each text payload is the text payload before it with something
  appended, and each tool payload is the tool payload before it with something
  appended.
\<close>

theorem generate_cumulative_output:
  "prefix_chain
     (text_payloads (events (generate str_of cp agent_ready query thread_id timeout_seconds stream)))
   \<and> prefix_chain
     (tool_payloads (events (generate str_of cp agent_ready query thread_id timeout_seconds stream)))"
proof (cases agent_ready)
  case False
  then show ?thesis by (simp add: generate_def)
next
  case True
  let ?b = "fst (reduce_chunks str_of (chunks stream))"
  from generate_events [of str_of cp query thread_id timeout_seconds stream] obtain n tail where
    ev: "events (generate str_of cp True query thread_id timeout_seconds stream)
       = take n (emitted ?b) @ tail"
    "text_payloads tail = []" "tool_payloads tail = []"
    by blast
  from inv_reduce_chunks [of str_of "chunks stream"]
  have pc: "prefix_chain (text_payloads (emitted ?b))" "prefix_chain (tool_payloads (emitted ?b))"
    by (simp_all add: reduction_inv_def)
  obtain m1 where m1: "text_payloads (take n (emitted ?b)) = take m1 (text_payloads (emitted ?b))"
    using text_payloads_take by blast
  obtain m2 where m2: "tool_payloads (take n (emitted ?b)) = take m2 (tool_payloads (emitted ?b))"
    using tool_payloads_take by blast
  from pc have "prefix_chain (take m1 (text_payloads (emitted ?b)))"
    and "prefix_chain (take m2 (tool_payloads (emitted ?b)))"
    by (simp_all add: prefix_chain_take)
  with ev m1 m2 True show ?thesis
    by (simp add: text_payloads_append tool_payloads_append)
qed

theorem generate_cumulative_output_witness:
  "events (generate demo_str [] True ''q'' ''t1'' 120
      \<lparr>chunks = [AgentChunk [text_message ''4''], OtherChunk,
                  AgentChunk [ToolMessage (PStr ''r''), text_message ''2'']],
       ending = Exhausted, deadline_at_yield = None\<rparr>)
     = [TextDelta ''4'', ToolDelta (tool_block ''r'') (Some ''Tool Response''), TextDelta ''42''] \<and>
   prefix_chain [''4'', ''42''] \<and> prefix_chain [tool_block ''r'']"
proof -
  have ev: "events (generate demo_str [] True ''q'' ''t1'' 120
      \<lparr>chunks = [AgentChunk [text_message ''4''], OtherChunk,
                  AgentChunk [ToolMessage (PStr ''r''), text_message ''2'']],
       ending = Exhausted, deadline_at_yield = None\<rparr>)
     = [TextDelta ''4'', ToolDelta (tool_block ''r'') (Some ''Tool Response''), TextDelta ''42'']"
    by (simp add: generate_def consume_def leave_block_def reduce_chunks_def process_chunk_def
        process_message_def text_message_def emit_text_def emit_tool_def no_output_def)
  from generate_cumulative_output [of demo_str "[]" True "''q''" "''t1''" 120
      "\<lparr>chunks = [AgentChunk [text_message ''4''], OtherChunk,
                  AgentChunk [ToolMessage (PStr ''r''), text_message ''2'']],
       ending = Exhausted, deadline_at_yield = None\<rparr>"]
  show ?thesis unfolding ev by simp
qed

text \<open>
  When the deadline comes while the next chunk is awaited, that is, when the chunks
  delivered before it are reduced without an exception, no deadline has come at a
  yield and the stream then ends by the deadline, \<open>generate\<close> yields the events
  emitted so far followed by one error event, the only one of the run, whose message
  holds the timeout in seconds; the list \<open>history\<close> is not built.
\<close>

lemma generate_timeout_while_awaiting:
  assumes "agent_ready"
    and "snd (reduce_chunks str_of (chunks stream)) = None"
    and "deadline_at_yield stream = None"
    and "ending stream = DeadlineElapsed"
  shows "events (generate str_of cp agent_ready query thread_id timeout_seconds stream)
           = emitted (fst (reduce_chunks str_of (chunks stream)))
             @ [Error (''Request timed out after '' @ str_int timeout_seconds @ '' seconds'')]
       \<and> error_messages (events (generate str_of cp agent_ready query thread_id timeout_seconds stream))
           = [''Request timed out after '' @ str_int timeout_seconds @ '' seconds'']
       \<and> history (generate str_of cp agent_ready query thread_id timeout_seconds stream) = None"
proof -
  obtain b where b: "reduce_chunks str_of (chunks stream) = (b, None)"
    using assms(2) by (cases "reduce_chunks str_of (chunks stream)") auto
  from inv_reduce_chunks [of str_of "chunks stream"] b have "error_messages (emitted b) = []"
    by (simp add: reduction_inv_def)
  with b assms(1,3,4) show ?thesis
    by (simp add: generate_def consume_def leave_block_def error_messages_append)
qed

text \<open>
  When the deadline comes at a yield, the run ends there: the events are those
  yielded so far, none of them an error, and the list \<open>history\<close> is not built.
\<close>

lemma generate_closed_at_yield:
  assumes "agent_ready"
    and "deadline_at_yield stream = Some k"
    and "k < length (emitted (fst (reduce_chunks str_of (chunks stream))))"
  shows "events (generate str_of cp agent_ready query thread_id timeout_seconds stream)
           = take (Suc k) (emitted (fst (reduce_chunks str_of (chunks stream))))
       \<and> error_messages (events (generate str_of cp agent_ready query thread_id timeout_seconds stream))
           = []
       \<and> history (generate str_of cp agent_ready query thread_id timeout_seconds stream) = None"
proof -
  obtain b r where b: "reduce_chunks str_of (chunks stream) = (b, r)"
    by (cases "reduce_chunks str_of (chunks stream)")
  from inv_reduce_chunks [of str_of "chunks stream"] b
  have "error_messages (emitted b) = []"
    by (simp add: reduction_inv_def)
  from error_messages_take [OF this, of "Suc k"] assms b show ?thesis
    by (simp add: generate_def consume_def)
qed

text \<open>
  C1. A query with a timeout of 5 seconds: the agent delivers a first chunk, its text
  is yielded, and the deadline comes while \<open>generate\<close> is suspended at that yield.
  The run yields that one text event and no error event, where the timeout law asks
  for exactly one error event with the timeout in its message.
\<close>

theorem generate_deadline_at_yield:
  "generate demo_str [] True ''What is 2+2?'' ''t1'' 5
     \<lparr>chunks = [AgentChunk [text_message ''The answer'']], ending = Exhausted,
      deadline_at_yield = Some 0\<rparr>
     = \<lparr>events = [TextDelta ''The answer''], history = None, store = []\<rparr> \<and>
   error_messages [TextDelta ''The answer''] = []"
  by (simp add: generate_def consume_def reduce_chunks_def process_chunk_def
      process_message_def text_message_def emit_text_def no_output_def)

text \<open>
  When the run completes, that is, when every chunk is reduced without an exception,
  no deadline comes at a yield and the stream is exhausted, the list \<open>history\<close> is
  what \<open>get_conversation_history\<close> reads, followed by the user message with the
  query, then an assistant message with the final text exactly when that text is
  not empty, then an \<open>assistant_tool\<close> message with the final tool trace exactly when
  that is not empty. The list is local to the call; the store is left as it was.
\<close>

lemma generate_completion:
  assumes "agent_ready"
    and "reduce_chunks str_of (chunks stream) = (b, None)"
    and "deadline_at_yield stream = None"
    and "ending stream = Exhausted"
  shows "history (generate str_of cp agent_ready query thread_id timeout_seconds stream)
           = Some (get_conversation_history cp thread_id
               @ [\<lparr>role = ''user'', content = PStr query\<rparr>]
               @ (if concat (accumulated_text b) \<noteq> []
                  then [\<lparr>role = ''assistant'', content = PStr (concat (accumulated_text b))\<rparr>]
                  else [])
               @ (if concat (accumulated_tool b) \<noteq> []
                  then [\<lparr>role = ''assistant_tool'', content = PStr (concat (accumulated_tool b))\<rparr>]
                  else []))
       \<and> events (generate str_of cp agent_ready query thread_id timeout_seconds stream) = emitted b
       \<and> store (generate str_of cp agent_ready query thread_id timeout_seconds stream) = cp"
  using assms
  by (simp add: generate_def consume_def leave_block_def completed_history_def Let_def)

text \<open>
  No entry that \<open>get_conversation_history\<close> returns has the role \<open>assistant_tool\<close>:
  whatever is stored, a tool trace is never read back from the thread.
\<close>

lemma history_loop_roles:
  "history_loop acc ms = Inr hist \<Longrightarrow> \<forall>e \<in> set acc. role e \<noteq> ''assistant_tool'' \<Longrightarrow>
     \<forall>e \<in> set hist. role e \<noteq> ''assistant_tool''"
proof (induction ms arbitrary: acc)
  case Nil
  then show ?case by simp
next
  case (Cons m rest)
  from Cons.prems(1) obtain c where
    c: "flatten_content (msg_content m) = Inr c"
    and r: "history_loop (acc @ [\<lparr>role = history_role m, content = c\<rparr>]) rest = Inr hist"
    by (auto split: sum.splits)
  have "\<forall>e \<in> set (acc @ [\<lparr>role = history_role m, content = c\<rparr>]). role e \<noteq> ''assistant_tool''"
    using Cons.prems(2) by (auto simp: history_role_def)
  from Cons.IH [OF r this] show ?case .
qed

lemma get_conversation_history_roles:
  "\<forall>e \<in> set (get_conversation_history cp thread_id). role e \<noteq> ''assistant_tool''"
proof (cases "map_of cp thread_id")
  case None
  then show ?thesis by (simp add: get_conversation_history_def)
next
  case (Some state)
  show ?thesis
  proof (cases "history_loop [] (case messages state of None \<Rightarrow> [] | Some ms \<Rightarrow> ms)")
    case (Inl e)
    with Some show ?thesis by (simp add: get_conversation_history_def)
  next
    case (Inr hist)
    from history_loop_roles [OF Inr] Some Inr show ?thesis
      by (simp add: get_conversation_history_def)
  qed
qed


end
